theory Spec2Isabelle
  imports Complex_Main "HOL-Library.AList"
begin

section \<open>Revenue forecast and retention engine: shallow embedding\<close>

text \<open>
  The definitions below follow \<^verbatim>\<open>modules/revenue_forecast/db.py\<close> and
  \<^verbatim>\<open>modules/revenue_forecast/router.py\<close>. Python's unbounded \<^verbatim>\<open>int\<close> is \<^typ>\<open>int\<close>.
  Python's \<^verbatim>\<open>float\<close> is read as \<^typ>\<open>real\<close>: arithmetic is exact, so rounding error of
  IEEE doubles is outside the model. A \<^verbatim>\<open>dict\<close> keyed by strings is an association list
  in insertion order with pairwise different keys; \<^const>\<open>AList.update\<close> is \<^verbatim>\<open>d[k] = v\<close>
  (overwrite in place, or append a new key) and \<^const>\<open>map_of\<close> is \<^verbatim>\<open>d.get(k)\<close>.
  A nullable column and an \<^verbatim>\<open>Optional\<close> value are \<^typ>\<open>'a option\<close>.
\<close>

type_synonym 'v dict = "(string \<times> 'v) list"

subsection \<open>Python built-ins used by the module\<close>

definition py_round :: "real \<Rightarrow> int" where
  \<comment> \<open>\<^verbatim>\<open>round(x)\<close> with one argument: nearest integer, ties to the even one.\<close>
  "py_round x =
     (let f = \<lfloor>x\<rfloor>; r = x - of_int f
      in if r < 1 / 2 then f
         else if 1 / 2 < r then f + 1
         else if even f then f else f + 1)"

definition py_int :: "real \<Rightarrow> int" where
  \<comment> \<open>\<^verbatim>\<open>int(x)\<close> on a number: truncation towards zero.\<close>
  "py_int x = (if 0 \<le> x then \<lfloor>x\<rfloor> else \<lceil>x\<rceil>)"

definition int_or :: "int option \<Rightarrow> int \<Rightarrow> int" where
  \<comment> \<open>\<^verbatim>\<open>v or d\<close> for an optional integer: \<^verbatim>\<open>None\<close> and \<^verbatim>\<open>0\<close> are falsy.\<close>
  "int_or v d = (case v of None \<Rightarrow> d | Some n \<Rightarrow> if n = 0 then d else n)"

definition real_or :: "real option \<Rightarrow> real \<Rightarrow> real" where
  \<comment> \<open>\<^verbatim>\<open>v or d\<close> for an optional number.\<close>
  "real_or v d = (case v of None \<Rightarrow> d | Some x \<Rightarrow> if x = 0 then d else x)"

subsection \<open>Plan bucket classifier\<close>

definition months_of :: "int option \<Rightarrow> int" where
  \<comment> \<open>\<^verbatim>\<open>round((duration_days or 0) / 30) if duration_days else 0\<close>\<close>
  "months_of duration_days =
     (case duration_days of
        None \<Rightarrow> 0
      | Some d \<Rightarrow> if d = 0 then 0 else py_round (real_of_int (int_or (Some d) 0) / 30))"

definition bucket_plan :: "string option \<Rightarrow> int option \<Rightarrow> string" where
  \<comment> \<open>\<^verbatim>\<open>_bucket_plan(group_code, duration_days)\<close>\<close>
  "bucket_plan group_code duration_days =
     (if group_code \<in> {Some ''1m'', Some ''3m'', Some ''12m''}
      then (case group_code of Some g \<Rightarrow> g | None \<Rightarrow> ''other'')
      else (let months = months_of duration_days
            in if months = 1 then ''1m''
               else if months = 3 then ''3m''
               else if 10 \<le> months \<and> months \<le> 13 then ''12m''
               else ''other''))"

subsection \<open>Bucket expression of the historical cohort query\<close>

definition coalesce :: "'a option \<Rightarrow> 'a \<Rightarrow> 'a" where
  \<comment> \<open>SQL \<^verbatim>\<open>COALESCE(v, d)\<close>\<close>
  "coalesce v d = (case v of None \<Rightarrow> d | Some x \<Rightarrow> x)"

definition sql_case_bucket :: "int \<Rightarrow> string" where
  \<comment> \<open>the \<^verbatim>\<open>CASE\<close> of the CTE \<^verbatim>\<open>prepared\<close> in \<^verbatim>\<open>estimate_auto_renewal_probs\<close>\<close>
  "sql_case_bucket duration_days =
     (if 25 \<le> duration_days \<and> duration_days \<le> 40 then ''1m''
      else if 80 \<le> duration_days \<and> duration_days \<le> 100 then ''3m''
      else if 360 \<le> duration_days \<and> duration_days \<le> 390 then ''12m''
      else ''other'')"

definition cohort_query_bucket :: "int option \<Rightarrow> string" where
  \<comment> \<open>the CTE \<^verbatim>\<open>plans\<close> reads \<^verbatim>\<open>COALESCE(t.duration_days, 30)\<close>; \<^verbatim>\<open>prepared\<close> applies the
      \<^verbatim>\<open>CASE\<close> to that value. The plan's \<^verbatim>\<open>group_code\<close> takes no part in it.\<close>
  "cohort_query_bucket duration_days = sql_case_bucket (coalesce duration_days 30)"

subsection \<open>Renewal probability estimator\<close>

text \<open>
  \<^verbatim>\<open>estimate_auto_renewal_probs\<close> runs one aggregate query and folds its rows
  \<^verbatim>\<open>(bucket, cohort, renewed)\<close> into per-bucket totals. The rows are the input here; the
  counts may be \<^verbatim>\<open>NULL\<close> (\<^verbatim>\<open>int(cohort or 0)\<close>).
\<close>

type_synonym cohort_row = "string \<times> int option \<times> int option"

definition initial_totals :: "(int \<times> int) dict" where
  "initial_totals = [(''1m'', (0, 0)), (''3m'', (0, 0)), (''12m'', (0, 0)), (''other'', (0, 0))]"

definition add_cohort_row :: "cohort_row \<Rightarrow> (int \<times> int) dict \<Rightarrow> (int \<times> int) dict" where
  \<comment> \<open>one pass of the first loop: a bucket not yet in \<^verbatim>\<open>totals\<close> starts at \<^verbatim>\<open>(0,0)\<close>, then
      \<^verbatim>\<open>totals[bucket] = (C + c, R + r)\<close>\<close>
  "add_cohort_row row totals =
     (case row of (b, cohort, renewed) \<Rightarrow>
        (let c = int_or cohort 0;
             r = int_or renewed 0;
             (C, R) = (case map_of totals b of None \<Rightarrow> (0, 0) | Some cr \<Rightarrow> cr)
         in AList.update b (C + c, R + r) totals))"

definition aggregate_totals :: "cohort_row list \<Rightarrow> (int \<times> int) dict" where
  "aggregate_totals rows = fold add_cohort_row rows initial_totals"

definition smoothed_prob :: "int \<times> int \<Rightarrow> real" where
  \<comment> \<open>\<^verbatim>\<open>p = (R + 1) / (C + 2) if C > 0 else 1.0\<close>, then \<^verbatim>\<open>max(0.0, min(1.0, float(p)))\<close>\<close>
  "smoothed_prob cr =
     (case cr of (C, R) \<Rightarrow>
        (let p = (if 0 < C then real_of_int (R + 1) / real_of_int (C + 2) else 1)
         in max 0 (min 1 p)))"

definition probs_of_totals :: "(int \<times> int) dict \<Rightarrow> real dict" where
  \<comment> \<open>the second loop: \<^verbatim>\<open>for b, (C, R) in totals.items(): result[b] = ...\<close>\<close>
  "probs_of_totals totals = fold (\<lambda>(b, cr) result. AList.update b (smoothed_prob cr) result) totals []"

definition estimate_auto_renewal_probs :: "cohort_row list \<Rightarrow> real dict" where
  "estimate_auto_renewal_probs rows = probs_of_totals (aggregate_totals rows)"

subsection \<open>Expiring-by-plan snapshots and the month-start baseline\<close>

text \<open>
  A row of the grouped plan queries is
  \<^verbatim>\<open>(pid, name, gcode, count, price, duration)\<close>; a snapshot maps the plan name to the
  dictionary built from it.
\<close>

type_synonym plan_row = "int \<times> string \<times> string option \<times> int option \<times> real option \<times> int option"

record plan_info =
  count :: int
  price :: real
  period_months :: "int option"
  group_code :: "string option"
  bucket :: string

definition period_months_of :: "int option \<Rightarrow> int option" where
  \<comment> \<open>\<^verbatim>\<open>round((duration or 0) / 30) if duration else None\<close>\<close>
  "period_months_of duration =
     (case duration of
        None \<Rightarrow> None
      | Some d \<Rightarrow> if d = 0 then None else Some (py_round (real_of_int (int_or (Some d) 0) / 30)))"

definition plan_entry :: "plan_row \<Rightarrow> plan_info" where
  "plan_entry row =
     (case row of (pid, name, gcode, cnt, pr, duration) \<Rightarrow>
        \<lparr>count = int_or cnt 0,
         price = real_or pr 0,
         period_months = period_months_of duration,
         group_code = gcode,
         bucket = bucket_plan gcode duration\<rparr>)"

definition row_name :: "plan_row \<Rightarrow> string" where
  "row_name row = (case row of (pid, name, gcode, cnt, pr, duration) \<Rightarrow> name)"

definition expiring_of_rows :: "plan_row list \<Rightarrow> plan_info dict" where
  \<comment> \<open>the loop of \<^verbatim>\<open>get_expiring_by_plan\<close>: \<^verbatim>\<open>data[str(name)] = {...}\<close>\<close>
  "expiring_of_rows rows = fold (\<lambda>row data. AList.update (row_name row) (plan_entry row) data) rows []"

definition add_prev_row :: "plan_row \<Rightarrow> plan_info dict \<Rightarrow> plan_info dict" where
  \<comment> \<open>one pass of the \<^verbatim>\<open>prev_data\<close> loop of \<^verbatim>\<open>get_baseline_expiring_by_plan\<close>\<close>
  "add_prev_row row prev_data =
     (case row of (pid, name, gcode, cnt, pr, duration) \<Rightarrow>
        (case map_of prev_data name of
           None \<Rightarrow> AList.update name (plan_entry row) prev_data
         | Some entry \<Rightarrow>
             (let e1 = entry\<lparr>count := count entry + int_or cnt 0\<rparr>;
                  e2 = (if real_or pr 0 \<noteq> 0 \<and> real_or pr 0 \<noteq> price e1
                        then e1\<lparr>price := real_or pr 0\<rparr> else e1)
              in AList.update name e2 prev_data)))"

definition prev_data_of_rows :: "plan_row list \<Rightarrow> plan_info dict" where
  "prev_data_of_rows rows = fold add_prev_row rows []"

definition merge_item :: "string \<times> plan_info \<Rightarrow> plan_info dict \<Rightarrow> plan_info dict" where
  \<comment> \<open>the body of the merge loop: a new name is copied, a known one gets the count added and,
      when \<^verbatim>\<open>info["price"]\<close> is truthy, the price replaced\<close>
  "merge_item item merged =
     (case item of (name, info) \<Rightarrow>
        (case map_of merged name of
           None \<Rightarrow> AList.update name info merged
         | Some m \<Rightarrow>
             (let m1 = m\<lparr>count := count m + count info\<rparr>;
                  m2 = (if price info \<noteq> 0 then m1\<lparr>price := price info\<rparr> else m1)
              in AList.update name m2 merged)))"

definition merge_snapshots :: "plan_info dict \<Rightarrow> plan_info dict \<Rightarrow> plan_info dict" where
  \<comment> \<open>\<^verbatim>\<open>for src in (current, prev_data): for name, info in src.items(): ...\<close>\<close>
  "merge_snapshots current prev_data = fold (\<lambda>src merged. fold merge_item src merged) [current, prev_data] []"

definition get_baseline_expiring_by_plan :: "plan_row list \<Rightarrow> plan_row list \<Rightarrow> plan_info dict" where
  \<comment> \<open>first argument: the rows of the current-month query (\<^verbatim>\<open>get_expiring_by_plan\<close>);
      second: the rows of \<^verbatim>\<open>stmt_prev\<close>\<close>
  "get_baseline_expiring_by_plan current_rows prev_rows =
     merge_snapshots (expiring_of_rows current_rows) (prev_data_of_rows prev_rows)"

subsection \<open>Forecast compositor\<close>

record plan_forecast =
  info :: plan_info
  expected :: real
  prob :: real

record forecast_result =
  forecast :: real
  received :: real
  to_earn :: real
  by_plans :: "plan_forecast dict"

definition or_else :: "real option \<Rightarrow> real option \<Rightarrow> real option" where
  \<comment> \<open>\<^verbatim>\<open>a or b\<close> on two results of \<^verbatim>\<open>dict.get\<close>: \<^verbatim>\<open>None\<close> and \<^verbatim>\<open>0.0\<close> are falsy\<close>
  "or_else a b = (case a of None \<Rightarrow> b | Some x \<Rightarrow> if x = 0 then b else Some x)"

definition dict_get_opt :: "'v dict \<Rightarrow> string option \<Rightarrow> 'v option" where
  \<comment> \<open>\<^verbatim>\<open>d.get(k)\<close> where \<^verbatim>\<open>k\<close> may be \<^verbatim>\<open>None\<close>, which is no key of a string-keyed dict\<close>
  "dict_get_opt d k = (case k of None \<Rightarrow> None | Some s \<Rightarrow> map_of d s)"

definition resolve_prob :: "real dict \<Rightarrow> real option \<Rightarrow> string \<Rightarrow> plan_info \<Rightarrow> real" where
  \<comment> \<open>\<^verbatim>\<open>overrides.get(code) or overrides.get(info.get("group_code")) or
      overrides.get(info.get("bucket")) or (global_prob if global_prob is not None else 1.0)\<close>\<close>
  "resolve_prob overrides global_prob code pinfo =
     real_or
       (or_else
          (or_else (map_of overrides code) (dict_get_opt overrides (group_code pinfo)))
          (map_of overrides (bucket pinfo)))
       (case global_prob of Some g \<Rightarrow> g | None \<Rightarrow> 1)"

definition forecast_step ::
  "real dict \<Rightarrow> real option \<Rightarrow> string \<times> plan_info \<Rightarrow> real \<times> plan_forecast dict \<Rightarrow> real \<times> plan_forecast dict" where
  "forecast_step overrides global_prob item acc =
     (case item of (code, pinfo) \<Rightarrow>
        (case acc of (fc, plans) \<Rightarrow>
           (let p = resolve_prob overrides global_prob code pinfo;
                e = price pinfo * real_of_int (count pinfo) * p
            in (fc + e, AList.update code \<lparr>info = pinfo, expected = e, prob = p\<rparr> plans))))"

definition compute_forecast ::
  "plan_info dict \<Rightarrow> real dict \<Rightarrow> real dict option \<Rightarrow> real option \<Rightarrow> forecast_result" where
  "compute_forecast expiring received_dict probs global_prob =
     (let overrides = (case probs of None \<Rightarrow> [] | Some d \<Rightarrow> d);
          (fc, plans) = fold (forecast_step overrides global_prob) expiring (0, []);
          rcv = (case map_of received_dict ''net'' of None \<Rightarrow> 0 | Some r \<Rightarrow> r)
      in \<lparr>forecast = fc, received = rcv, to_earn = max 0 (fc - rcv), by_plans = plans\<rparr>)"

subsection \<open>Report assembly (\<^verbatim>\<open>_render_summary\<close>)\<close>

text \<open>
  The module \<^verbatim>\<open>settings\<close> is read through these five attributes;
  \<^verbatim>\<open>COMPLETION_MODE\<close> is read with \<^verbatim>\<open>getattr(settings, "COMPLETION_MODE", "cash")\<close>.
\<close>

record settings =
  SKIP_FROZEN :: bool
  EXCLUDE_TRIALS :: bool
  PLAN_PROB_OVERRIDES :: "real dict option"
  RENEWAL_PROBABILITY :: "real option"
  COMPLETION_MODE :: "string option"

definition recognized_total_of :: "plan_row list \<Rightarrow> real" where
  \<comment> \<open>\<^verbatim>\<open>total\<close> of \<^verbatim>\<open>get_recognized_revenue_accrual\<close>, summed over the rows of its query\<close>
  "recognized_total_of rows =
     fold (\<lambda>row total. case row of (pid, name, gcode, cnt, pr, dur) \<Rightarrow>
             total + real_of_int (int_or cnt 0) * real_or pr 0) rows 0"

definition probs_to_use :: "settings \<Rightarrow> cohort_row list \<Rightarrow> real dict \<times> real option" where
  \<comment> \<open>the overrides and the global probability handed to the compositor; the estimator
      runs only when neither is configured\<close>
  "probs_to_use st cohort_rows =
     (let ov = (case PLAN_PROB_OVERRIDES st of None \<Rightarrow> [] | Some d \<Rightarrow> d);
          global_p = RENEWAL_PROBABILITY st
      in if ov = [] \<and> global_p = None
         then (estimate_auto_renewal_probs cohort_rows, None)
         else (ov, global_p))"

record summary =
  data :: forecast_result
  plan_baseline :: real
  plan_completion_pct :: "real option"
  plan_gap :: real

definition render_summary ::
  "settings \<Rightarrow> plan_info dict \<Rightarrow> plan_info dict \<Rightarrow> real dict \<Rightarrow> cohort_row list \<Rightarrow> plan_row list \<Rightarrow> summary" where
  \<comment> \<open>arguments after the settings: the two snapshots, the dictionary of \<^verbatim>\<open>get_received\<close>,
      the rows of the estimator's query and the rows of the accrual query\<close>
  "render_summary st expiring baseline_expiring rcv cohort_rows accrual_rows =
     (let (ov, global_p) = probs_to_use st cohort_rows;
          d = compute_forecast expiring rcv (Some ov) global_p;
          baseline = compute_forecast baseline_expiring
                       [(''net'', 0), (''paid'', 0), (''refunds'', 0)] (Some ov) global_p;
          mode = (case COMPLETION_MODE st of None \<Rightarrow> ''cash'' | Some m \<Rightarrow> m);
          plan_sum = forecast baseline;
          recognized_total = recognized_total_of accrual_rows;
          pct = (if 0 < plan_sum
                 then (if mode = ''plan_vs_forecast''
                       then Some (max 0 (min 100 ((plan_sum - forecast d) / plan_sum * 100)))
                       else if mode = ''accrual''
                       then Some (recognized_total / plan_sum * 100)
                       else Some (received d / plan_sum * 100))
                 else None);
          gap = (if 0 < plan_sum
                 then (if mode = ''plan_vs_forecast'' then forecast d
                       else if mode = ''accrual'' then max 0 (plan_sum - recognized_total)
                       else max 0 (plan_sum - received d))
                 else 0)
      in \<lparr>data = d, plan_baseline = plan_sum, plan_completion_pct = pct, plan_gap = gap\<rparr>)"

subsection \<open>The store, as the retention analyzer reads it\<close>

text \<open>
  Instants are integers counting milliseconds since the epoch, for the \<^verbatim>\<open>datetime\<close>
  bounds as for the \<^verbatim>\<open>expiry_time\<close> column; \<^verbatim>\<open>int(dt.timestamp() * 1000)\<close> is then
  the instant itself (the host clock is taken to be UTC), and \<^verbatim>\<open>timedelta(days=n)\<close> is
  \<open>n * 86400000\<close>. The columns the code guards with \<^verbatim>\<open>COALESCE\<close> or \<^verbatim>\<open>or\<close> are
  nullable. The table \<^verbatim>\<open>keys\<close> is taken to have its \<^verbatim>\<open>is_frozen\<close> column, so the
  \<^verbatim>\<open>hasattr\<close> test of the frozen filter succeeds.
\<close>

type_synonym datetime = int

definition timestamp_ms :: "datetime \<Rightarrow> int" where
  "timestamp_ms dt = dt"

definition days_ms :: "int \<Rightarrow> int" where
  "days_ms n = n * 86400000"

record key_row =
  k_tg_id :: int
  k_expiry_time :: int
  k_tariff_id :: int
  k_is_frozen :: "bool option"

record tariff_row =
  t_id :: int
  t_group_code :: "string option"
  t_duration_days :: "int option"
  t_price_rub :: "real option"

record payment_row =
  p_tg_id :: int
  p_amount :: "real option"
  p_status :: string
  p_created_at :: datetime

text \<open>SQL conditions have three values; \<^verbatim>\<open>WHERE\<close> keeps a row when its condition is true.\<close>

definition sql_eq :: "'a option \<Rightarrow> 'a \<Rightarrow> bool option" where
  "sql_eq a b = map_option (\<lambda>x. x = b) a"

definition sql_or :: "bool option \<Rightarrow> bool option \<Rightarrow> bool option" where
  "sql_or a b =
     (if a = Some True \<or> b = Some True then Some True
      else if a = Some False \<and> b = Some False then Some False
      else None)"

definition sql_not :: "bool option \<Rightarrow> bool option" where
  "sql_not a = map_option Not a"

definition not_trial :: "string option \<Rightarrow> real option \<Rightarrow> bool" where
  \<comment> \<open>\<^verbatim>\<open>~((gc_col == "trial") | (func.coalesce(price_col, 0) == 0))\<close>\<close>
  "not_trial gc pr =
     (sql_not (sql_or (sql_eq gc ''trial'') (Some (coalesce pr 0 = 0))) = Some True)"

definition prev_expiry_ms :: "key_row \<Rightarrow> tariff_row \<Rightarrow> int" where
  \<comment> \<open>\<^verbatim>\<open>expiry_col - cast(coalesce(dur_col, 0), BigInteger) * 86400000\<close>\<close>
  "prev_expiry_ms k t = k_expiry_time k - coalesce (t_duration_days t) 0 * 86400000"

text \<open>A candidate row is \<^verbatim>\<open>(expiry_ms, gcode, days, price, tg_id)\<close>.\<close>

type_synonym cand_row = "int option \<times> string option \<times> int option \<times> real option \<times> int"

definition cand_tg :: "cand_row \<Rightarrow> int" where
  "cand_tg row = (case row of (expiry_ms, gcode, days, pr, tg) \<Rightarrow> tg)"

definition q_candidates :: "settings \<Rightarrow> key_row list \<Rightarrow> tariff_row list \<Rightarrow> int \<Rightarrow> int \<Rightarrow> cand_row list" where
  \<comment> \<open>the query \<^verbatim>\<open>q_candidates\<close>: one row for each key joined with its plan, kept when the
      implied previous-cycle expiry lies in the window and the policy filters pass\<close>
  "q_candidates flags keys plans start_ms end_ms =
     [(Some (k_expiry_time k), t_group_code t, t_duration_days t, t_price_rub t, k_tg_id k).
        k \<leftarrow> keys, t \<leftarrow> plans,
        k_tariff_id k = t_id t,
        start_ms \<le> prev_expiry_ms k t, prev_expiry_ms k t < end_ms,
        SKIP_FROZEN flags \<longrightarrow> k_is_frozen k = Some False,
        EXCLUDE_TRIALS flags \<longrightarrow> not_trial (t_group_code t) (t_price_rub t)]"

definition paid_in_month :: "payment_row list \<Rightarrow> datetime \<Rightarrow> datetime \<Rightarrow> int list" where
  \<comment> \<open>accounts with a successful payment created in the window\<close>
  "paid_in_month payments dt_start dt_end =
     [p_tg_id p. p \<leftarrow> payments,
        dt_start \<le> p_created_at p, p_created_at p < dt_end, p_status p = ''success'']"

definition add_price_plan ::
  "tariff_row \<Rightarrow> (int \<times> int \<times> string option) list \<Rightarrow> (int \<times> int \<times> string option) list" where
  \<comment> \<open>\<^verbatim>\<open>price_to_plan.setdefault(int(price_rub or 0), (int(dd or 30), gcode))\<close>\<close>
  "add_price_plan t m =
     (let key = py_int (real_or (t_price_rub t) 0)
      in case map_of m key of
           None \<Rightarrow> m @ [(key, (int_or (t_duration_days t) 30, t_group_code t))]
         | Some v \<Rightarrow> m)"

definition price_to_plan :: "tariff_row list \<Rightarrow> (int \<times> int \<times> string option) list" where
  "price_to_plan plans = fold add_price_plan plans []"

fun keep_latest :: "payment_row \<Rightarrow> payment_row list \<Rightarrow> payment_row list" where
  "keep_latest p [] = [p]"
| "keep_latest p (q # qs) =
     (if p_tg_id q = p_tg_id p
      then (if p_created_at q < p_created_at p then p else q) # qs
      else q # keep_latest p qs)"

definition last_pays :: "payment_row list \<Rightarrow> datetime \<Rightarrow> (int \<times> real option \<times> datetime) list" where
  \<comment> \<open>the ranked subquery with \<^verbatim>\<open>rn == 1\<close>: for each account, its successful payment before
      \<^verbatim>\<open>dt_end\<close> with the greatest \<^verbatim>\<open>created_at\<close> (among equal instants, which one the
      database returns is not fixed; here, the first in table order)\<close>
  "last_pays payments dt_end =
     map (\<lambda>p. (p_tg_id p, p_amount p, p_created_at p))
       (fold keep_latest
          [p. p \<leftarrow> payments, p_created_at p < dt_end, p_status p = ''success''] [])"

definition fallback_of ::
  "int set \<Rightarrow> (int \<times> int \<times> string option) list \<Rightarrow> datetime \<Rightarrow> datetime \<Rightarrow>
   int \<times> real option \<times> datetime \<Rightarrow> cand_row list" where
  \<comment> \<open>one pass of the fallback loop: nothing is appended on either \<^verbatim>\<open>continue\<close> or when the
      reconstructed expiry misses the window\<close>
  "fallback_of cand_tg_ids plan_map dt_start dt_end lp =
     (case lp of (tg, amount, paid_at) \<Rightarrow>
        if tg \<in> cand_tg_ids then []
        else (let price_key = py_round (real_or amount 0)
              in case map_of plan_map price_key of
                   None \<Rightarrow> []
                 | Some (dd, gcode) \<Rightarrow>
                     (let prev_expiry_dt = paid_at + days_ms (int_or (Some dd) 30)
                      in if dt_start \<le> prev_expiry_dt \<and> prev_expiry_dt < dt_end
                         then [(None, gcode, Some dd, Some (real_of_int price_key), tg)]
                         else [])))"

definition fallback_rows ::
  "settings \<Rightarrow> key_row list \<Rightarrow> tariff_row list \<Rightarrow> payment_row list \<Rightarrow> datetime \<Rightarrow> datetime \<Rightarrow> cand_row list" where
  "fallback_rows flags keys plans payments dt_start dt_end =
     (let cand_rows = q_candidates flags keys plans (timestamp_ms dt_start) (timestamp_ms dt_end);
          cand_tg_ids = set (map cand_tg cand_rows)
      in concat (map (fallback_of cand_tg_ids (price_to_plan plans) dt_start dt_end)
                   (last_pays payments dt_end)))"

definition merged_candidates ::
  "settings \<Rightarrow> key_row list \<Rightarrow> tariff_row list \<Rightarrow> payment_row list \<Rightarrow> datetime \<Rightarrow> datetime \<Rightarrow> cand_row list" where
  \<comment> \<open>\<^verbatim>\<open>cand_rows\<close> after \<^verbatim>\<open>cand_rows.extend(fallback_rows)\<close>\<close>
  "merged_candidates flags keys plans payments dt_start dt_end =
     q_candidates flags keys plans (timestamp_ms dt_start) (timestamp_ms dt_end)
     @ fallback_rows flags keys plans payments dt_start dt_end"

subsection \<open>Retention and churn\<close>

definition bump :: "string \<Rightarrow> int dict \<Rightarrow> int dict" where
  \<comment> \<open>\<^verbatim>\<open>bucket_counts[bucket] = bucket_counts.get(bucket, 0) + 1\<close>\<close>
  "bump b counts = AList.update b ((case map_of counts b of None \<Rightarrow> 0 | Some n \<Rightarrow> n) + 1) counts"

definition classify_row ::
  "int \<Rightarrow> int set \<Rightarrow> cand_row \<Rightarrow> int \<times> int \<times> int dict \<Rightarrow> int \<times> int \<times> int dict" where
  \<comment> \<open>one pass of the classification loop over \<^verbatim>\<open>cand_rows\<close>\<close>
  "classify_row end_ms paid_in_month_tg row acc =
     (case row of (expiry_ms, gcode, days, pr, tg) \<Rightarrow>
        (case acc of (renewed, not_renewed, bucket_counts) \<Rightarrow>
           (case expiry_ms of
              Some e \<Rightarrow>
                if end_ms \<le> int_or (Some e) 0
                then (renewed + 1, not_renewed, bucket_counts)
                else (renewed, not_renewed + 1, bump (bucket_plan gcode days) bucket_counts)
            | None \<Rightarrow>
                if tg \<in> paid_in_month_tg
                then (renewed + 1, not_renewed, bucket_counts)
                else (renewed, not_renewed + 1, bump (bucket_plan gcode days) bucket_counts))))"

definition predicted_churn_of :: "real dict option \<Rightarrow> real option \<Rightarrow> int dict \<Rightarrow> real" where
  \<comment> \<open>\<^verbatim>\<open>p = p_map.get(bucket, default_p)\<close>, then
      \<^verbatim>\<open>predicted_churn += (1.0 - float(p or 0.0)) * cnt\<close>\<close>
  "predicted_churn_of probs global_prob bucket_counts =
     (let p_map = (case probs of None \<Rightarrow> [] | Some d \<Rightarrow> d);
          default_p = (case global_prob of Some g \<Rightarrow> g | None \<Rightarrow> 1)
      in fold (\<lambda>(b, cnt) acc.
                 (let p = (case map_of p_map b of None \<Rightarrow> default_p | Some v \<Rightarrow> v)
                  in acc + (1 - real_or (Some p) 0) * real_of_int cnt))
           bucket_counts 0)"

record retention_report =
  retention_rate :: "real option"
  churn_rate :: "real option"
  renewed_count :: int
  not_renewed_yet :: int
  predicted_churn :: real

definition report_of_candidates ::
  "cand_row list \<Rightarrow> int \<Rightarrow> int set \<Rightarrow> real dict option \<Rightarrow> real option \<Rightarrow> retention_report" where
  \<comment> \<open>\<^verbatim>\<open>_calc_retention_churn\<close> from \<^verbatim>\<open>candidates_total = len(cand_rows)\<close> on\<close>
  "report_of_candidates cand_rows end_ms paid_in_month_tg probs global_prob =
     (let candidates_total = int (length cand_rows)
      in if candidates_total = 0
         then \<lparr>retention_rate = None, churn_rate = None, renewed_count = 0,
                not_renewed_yet = 0, predicted_churn = 0\<rparr>
         else (let (renewed, not_renewed, bucket_counts) =
                     fold (classify_row end_ms paid_in_month_tg) cand_rows (0, 0, [])
               in \<lparr>retention_rate = Some (real_of_int renewed / real_of_int candidates_total),
                   churn_rate = Some (real_of_int not_renewed / real_of_int candidates_total),
                   renewed_count = renewed,
                   not_renewed_yet = not_renewed,
                   predicted_churn = predicted_churn_of probs global_prob bucket_counts\<rparr>))"

definition calc_retention_churn ::
  "settings \<Rightarrow> key_row list \<Rightarrow> tariff_row list \<Rightarrow> payment_row list \<Rightarrow> datetime \<Rightarrow> datetime \<Rightarrow>
   real dict option \<Rightarrow> real option \<Rightarrow> retention_report" where
  "calc_retention_churn flags keys plans payments dt_start dt_end probs global_prob =
     report_of_candidates
       (merged_candidates flags keys plans payments dt_start dt_end)
       (timestamp_ms dt_end)
       (set (paid_in_month payments dt_start dt_end))
       probs global_prob"

section \<open>Properties\<close>

subsection \<open>Rounding and the bucket classifier\<close>

lemma py_round_eq_iff:
  "py_round x = m \<longleftrightarrow>
     (real_of_int m - 1 / 2 < x \<and> x < real_of_int m + 1 / 2)
     \<or> (even m \<and> (x = real_of_int m - 1 / 2 \<or> x = real_of_int m + 1 / 2))"
proof -
  define f where "f = \<lfloor>x\<rfloor>"
  have lo: "real_of_int f \<le> x" and hi: "x < real_of_int f + 1"
    unfolding f_def by linarith+
  have int_le: "\<And>a b :: int. real_of_int a < real_of_int b + 1 \<Longrightarrow> a \<le> b"
    by linarith
  consider (down) "x - real_of_int f < 1 / 2" | (up) "1 / 2 < x - real_of_int f"
    | (tie) "x = real_of_int f + 1 / 2" by linarith
  then show ?thesis
  proof cases
    case down
    then have pr: "py_round x = f" by (simp add: py_round_def f_def)
    show ?thesis unfolding pr
    proof
      assume "f = m" with lo down show "(real_of_int m - 1 / 2 < x \<and> x < real_of_int m + 1 / 2)
     \<or> (even m \<and> (x = real_of_int m - 1 / 2 \<or> x = real_of_int m + 1 / 2))" by auto
    next
      assume "(real_of_int m - 1 / 2 < x \<and> x < real_of_int m + 1 / 2)
     \<or> (even m \<and> (x = real_of_int m - 1 / 2 \<or> x = real_of_int m + 1 / 2))"
      then have "real_of_int m - 1 / 2 \<le> x" "x \<le> real_of_int m + 1 / 2" by auto
      with lo hi down have "real_of_int m < real_of_int f + 1" "real_of_int f < real_of_int m + 1"
        by linarith+
      then show "f = m" using int_le by force
    qed
  next
    case up
    then have pr: "py_round x = f + 1" by (simp add: py_round_def f_def)
    show ?thesis unfolding pr
    proof
      assume "f + 1 = m" with hi up show "(real_of_int m - 1 / 2 < x \<and> x < real_of_int m + 1 / 2)
     \<or> (even m \<and> (x = real_of_int m - 1 / 2 \<or> x = real_of_int m + 1 / 2))" by auto
    next
      assume "(real_of_int m - 1 / 2 < x \<and> x < real_of_int m + 1 / 2)
     \<or> (even m \<and> (x = real_of_int m - 1 / 2 \<or> x = real_of_int m + 1 / 2))"
      then have "real_of_int m - 1 / 2 \<le> x" "x \<le> real_of_int m + 1 / 2" by auto
      with lo hi up have "real_of_int m < real_of_int (f + 1) + 1" "real_of_int (f + 1) < real_of_int m + 1"
        by simp_all
      then show "f + 1 = m" using int_le by force
    qed
  next
    case tie
    then have pr: "py_round x = (if even f then f else f + 1)"
      by (simp add: py_round_def f_def)
    have m: "real_of_int m - 1 / 2 < x \<and> x < real_of_int m + 1 / 2 \<longleftrightarrow> False"
      using tie int_le [of m f] int_le [of "f + 1" m] by auto
    have e1: "x = real_of_int m - 1 / 2 \<longleftrightarrow> m = f + 1" using tie by auto
    have e2: "x = real_of_int m + 1 / 2 \<longleftrightarrow> m = f" using tie by auto
    show ?thesis unfolding pr m e1 e2 by auto
  qed
qed

lemma months_of_Some: "months_of (Some n) = py_round (real_of_int n / 30)"
  by (simp add: months_of_def int_or_def py_round_def)

lemma months_of_eq_iff:
  "months_of (Some n) = m \<longleftrightarrow>
     (30 * m - 15 < n \<and> n < 30 * m + 15) \<or> (even m \<and> (n = 30 * m - 15 \<or> n = 30 * m + 15))"
proof -
  have a: "real_of_int m - 1 / 2 < real_of_int n / 30 \<longleftrightarrow> 30 * m - 15 < n"
   and b: "real_of_int n / 30 < real_of_int m + 1 / 2 \<longleftrightarrow> n < 30 * m + 15"
   and c: "real_of_int n / 30 = real_of_int m - 1 / 2 \<longleftrightarrow> n = 30 * m - 15"
   and d: "real_of_int n / 30 = real_of_int m + 1 / 2 \<longleftrightarrow> n = 30 * m + 15"
    by (auto simp: field_simps)
  show ?thesis unfolding months_of_Some py_round_eq_iff a b c d ..
qed

lemma months_of_eq_1: "months_of (Some n) = 1 \<longleftrightarrow> 16 \<le> n \<and> n \<le> 44"
  unfolding months_of_eq_iff by auto

lemma months_of_eq_3: "months_of (Some n) = 3 \<longleftrightarrow> 76 \<le> n \<and> n \<le> 104"
  unfolding months_of_eq_iff by auto

lemma months_of_year:
  "10 \<le> months_of (Some n) \<and> months_of (Some n) \<le> 13 \<longleftrightarrow> 285 \<le> n \<and> n \<le> 404"
proof -
  have "10 \<le> months_of (Some n) \<and> months_of (Some n) \<le> 13 \<longleftrightarrow>
        months_of (Some n) = 10 \<or> months_of (Some n) = 11 \<or> months_of (Some n) = 12
        \<or> months_of (Some n) = 13" by auto
  also have "\<dots> \<longleftrightarrow> 285 \<le> n \<and> n \<le> 404"
    unfolding months_of_eq_iff by auto
  finally show ?thesis .
qed

lemma bucket_plan_by_days:
  "g \<notin> {Some ''1m'', Some ''3m'', Some ''12m''} \<Longrightarrow>
   bucket_plan g (Some n) =
     (if 16 \<le> n \<and> n \<le> 44 then ''1m''
      else if 76 \<le> n \<and> n \<le> 104 then ''3m''
      else if 285 \<le> n \<and> n \<le> 404 then ''12m''
      else ''other'')"
  using months_of_eq_1 [of n] months_of_eq_3 [of n] months_of_year [of n]
  by (simp add: bucket_plan_def Let_def)

lemma bucket_plan_no_days:
  "g \<notin> {Some ''1m'', Some ''3m'', Some ''12m''} \<Longrightarrow> bucket_plan g None = ''other''"
  by (simp add: bucket_plan_def months_of_def)

text \<open>
  Claim C7. The plan bucket classifier is a total function of its two arguments. A
  \<^verbatim>\<open>group_code\<close> that is exactly \<^verbatim>\<open>1m\<close>, \<^verbatim>\<open>3m\<close> or \<^verbatim>\<open>12m\<close> is returned as it is, whatever
  the duration, so \<^verbatim>\<open>classify("1m", 97)\<close> is \<^verbatim>\<open>1m\<close> although 97 days alone give \<^verbatim>\<open>3m\<close>.
  Any other \<^verbatim>\<open>group_code\<close> leaves the decision to \<^verbatim>\<open>months = round(duration_days / 30)\<close>:
  1 gives \<^verbatim>\<open>1m\<close>, 3 gives \<^verbatim>\<open>3m\<close>, 10 to 13 give \<^verbatim>\<open>12m\<close>, and everything else, a missing
  duration included, gives \<^verbatim>\<open>other\<close>. The result is always one of the four buckets; being a
  function, the classifier returns the same bucket for the same arguments.
\<close>

theorem bucket_plan_classifies:
  "(g \<in> {''1m'', ''3m'', ''12m''} \<longrightarrow> bucket_plan (Some g) d = g)
   \<and> (gc \<notin> {Some ''1m'', Some ''3m'', Some ''12m''} \<longrightarrow>
        bucket_plan gc d =
          (case d of
             None \<Rightarrow> ''other''
           | Some n \<Rightarrow>
               (let months = py_round (real_of_int n / 30)
                in if months = 1 then ''1m''
                   else if months = 3 then ''3m''
                   else if 10 \<le> months \<and> months \<le> 13 then ''12m''
                   else ''other'')))
   \<and> bucket_plan gc d \<in> {''1m'', ''3m'', ''12m'', ''other''}
   \<and> bucket_plan (Some ''1m'') (Some 97) = ''1m''
   \<and> bucket_plan None (Some 97) = ''3m''"
proof (intro conjI impI)
  assume "g \<in> {''1m'', ''3m'', ''12m''}"
  then show "bucket_plan (Some g) d = g"
    by (auto simp: bucket_plan_def)
next
  assume "gc \<notin> {Some ''1m'', Some ''3m'', Some ''12m''}"
  then show "bucket_plan gc d =
          (case d of
             None \<Rightarrow> ''other''
           | Some n \<Rightarrow>
               (let months = py_round (real_of_int n / 30)
                in if months = 1 then ''1m''
                   else if months = 3 then ''3m''
                   else if 10 \<le> months \<and> months \<le> 13 then ''12m''
                   else ''other''))"
    by (cases d) (simp_all add: bucket_plan_def months_of_Some Let_def, simp add: months_of_def)
next
  show "bucket_plan gc d \<in> {''1m'', ''3m'', ''12m'', ''other''}"
    by (auto simp: bucket_plan_def Let_def)
next
  show "bucket_plan (Some ''1m'') (Some 97) = ''1m''"
    by (simp add: bucket_plan_def)
next
  show "bucket_plan None (Some 97) = ''3m''"
    by (simp add: bucket_plan_by_days)
qed

theorem bucket_plan_classifies_witness:
  "bucket_plan (Some ''12m'') (Some 30) = ''12m''
   \<and> bucket_plan (Some ''trial'') (Some 365) = ''12m''
   \<and> bucket_plan (Some ''trial'') (Some 7) = ''other''"
  using bucket_plan_classifies [of "''12m''" "Some 30" "Some ''trial''"]
    bucket_plan_classifies [of "''12m''" "Some 365" "Some ''trial''"]
    bucket_plan_classifies [of "''12m''" "Some 7" "Some ''trial''"]
  by (simp add: py_round_def)

subsection \<open>The cohort query against the classifier\<close>

lemma sql_case_bucket_cases:
  "sql_case_bucket n = ''1m'' \<longleftrightarrow> 25 \<le> n \<and> n \<le> 40"
  "sql_case_bucket n = ''3m'' \<longleftrightarrow> 80 \<le> n \<and> n \<le> 100"
  "sql_case_bucket n = ''12m'' \<longleftrightarrow> 360 \<le> n \<and> n \<le> 390"
  "sql_case_bucket n = ''other'' \<longleftrightarrow>
     \<not> (25 \<le> n \<and> n \<le> 40) \<and> \<not> (80 \<le> n \<and> n \<le> 100) \<and> \<not> (360 \<le> n \<and> n \<le> 390)"
  by (simp_all add: sql_case_bucket_def)

lemma sql_case_bucket_range: "sql_case_bucket n \<in> {''1m'', ''3m'', ''12m'', ''other''}"
  by (simp add: sql_case_bucket_def)

lemma bucket_plan_untagged_cases:
  assumes "g \<notin> {Some ''1m'', Some ''3m'', Some ''12m''}"
  shows "bucket_plan g (Some n) = ''1m'' \<longleftrightarrow> 16 \<le> n \<and> n \<le> 44"
    and "bucket_plan g (Some n) = ''3m'' \<longleftrightarrow> 76 \<le> n \<and> n \<le> 104"
    and "bucket_plan g (Some n) = ''12m'' \<longleftrightarrow> 285 \<le> n \<and> n \<le> 404"
    and "bucket_plan g (Some n) = ''other'' \<longleftrightarrow>
           \<not> (16 \<le> n \<and> n \<le> 44) \<and> \<not> (76 \<le> n \<and> n \<le> 104) \<and> \<not> (285 \<le> n \<and> n \<le> 404)"
  unfolding bucket_plan_by_days [OF assms] by simp_all

lemma bucket_plan_tagged:
  "bucket_plan (Some ''1m'') d = ''1m''"
  "bucket_plan (Some ''3m'') d = ''3m''"
  "bucket_plan (Some ''12m'') d = ''12m''"
  by (simp_all add: bucket_plan_def)

lemma four_way_eq:
  assumes "a \<in> {''1m'', ''3m'', ''12m'', ''other''}"
  shows "a = b \<longleftrightarrow>
    (a = ''1m'' \<and> b = ''1m'') \<or> (a = ''3m'' \<and> b = ''3m'')
    \<or> (a = ''12m'' \<and> b = ''12m'') \<or> (a = ''other'' \<and> b = ''other'')"
  using assms by blast

text \<open>
  The historical cohort query does not follow the classifier: a 20-day plan without a
  group code is \<^verbatim>\<open>other\<close> for the query and \<^verbatim>\<open>1m\<close> for the classifier, and a 90-day plan
  tagged \<^verbatim>\<open>1m\<close> is \<^verbatim>\<open>3m\<close> for the query and \<^verbatim>\<open>1m\<close> for the classifier.
\<close>

theorem cohort_query_bucket_counterexample:
  "cohort_query_bucket (Some 20) = ''other'' \<and> bucket_plan None (Some 20) = ''1m''
   \<and> cohort_query_bucket (Some 90) = ''3m'' \<and> bucket_plan (Some ''1m'') (Some 90) = ''1m''"
  by (simp add: cohort_query_bucket_def sql_case_bucket_def coalesce_def bucket_plan_by_days)
    (simp add: bucket_plan_def)

text \<open>
  Claim C8, amended. The cohort query buckets a subscription by the duration of its plan
  alone (25 to 40 days \<^verbatim>\<open>1m\<close>, 80 to 100 \<^verbatim>\<open>3m\<close>, 360 to 390 \<^verbatim>\<open>12m\<close>, else \<^verbatim>\<open>other\<close>, a
  null duration read as 30). It gives the classifier's bucket exactly in these cases: the
  plan is tagged \<^verbatim>\<open>1m\<close>, \<^verbatim>\<open>3m\<close> or \<^verbatim>\<open>12m\<close> and its duration lies in the query's range for
  that tag; or the plan has no such tag, its duration is not null, and the duration lies
  in one of the query's three ranges or outside 16 to 44, 76 to 104 and 285 to 404 days.
\<close>

theorem cohort_query_bucket_agreement:
  "cohort_query_bucket d = bucket_plan g d \<longleftrightarrow>
     (if g = Some ''1m'' then (case d of None \<Rightarrow> True | Some n \<Rightarrow> 25 \<le> n \<and> n \<le> 40)
      else if g = Some ''3m'' then (case d of None \<Rightarrow> False | Some n \<Rightarrow> 80 \<le> n \<and> n \<le> 100)
      else if g = Some ''12m'' then (case d of None \<Rightarrow> False | Some n \<Rightarrow> 360 \<le> n \<and> n \<le> 390)
      else (case d of
              None \<Rightarrow> False
            | Some n \<Rightarrow>
                (25 \<le> n \<and> n \<le> 40) \<or> (80 \<le> n \<and> n \<le> 100) \<or> (360 \<le> n \<and> n \<le> 390)
                \<or> n < 16 \<or> (44 < n \<and> n < 76) \<or> (104 < n \<and> n < 285) \<or> 404 < n))"
proof -
  consider (m1) "g = Some ''1m''" | (m3) "g = Some ''3m''" | (m12) "g = Some ''12m''"
    | (rest) "g \<notin> {Some ''1m'', Some ''3m'', Some ''12m''}" by auto
  then show ?thesis
  proof cases
    case m1
    show ?thesis unfolding m1 bucket_plan_tagged cohort_query_bucket_def
      by (cases d) (simp_all add: coalesce_def sql_case_bucket_cases)
  next
    case m3
    show ?thesis unfolding m3 bucket_plan_tagged cohort_query_bucket_def
      by (cases d) (simp_all add: coalesce_def sql_case_bucket_cases)
  next
    case m12
    show ?thesis unfolding m12 bucket_plan_tagged cohort_query_bucket_def
      by (cases d) (simp_all add: coalesce_def sql_case_bucket_cases)
  next
    case rest
    then have g: "g \<noteq> Some ''1m''" "g \<noteq> Some ''3m''" "g \<noteq> Some ''12m''" by auto
    show ?thesis
    proof (cases d)
      case None
      have "cohort_query_bucket None = ''1m''"
        by (simp add: cohort_query_bucket_def coalesce_def sql_case_bucket_cases)
      with rest g None show ?thesis
        by (simp add: bucket_plan_no_days)
    next
      case (Some n)
      have "sql_case_bucket n = bucket_plan g (Some n) \<longleftrightarrow>
              (sql_case_bucket n = ''1m'' \<and> bucket_plan g (Some n) = ''1m'')
              \<or> (sql_case_bucket n = ''3m'' \<and> bucket_plan g (Some n) = ''3m'')
              \<or> (sql_case_bucket n = ''12m'' \<and> bucket_plan g (Some n) = ''12m'')
              \<or> (sql_case_bucket n = ''other'' \<and> bucket_plan g (Some n) = ''other'')"
        by (rule four_way_eq [OF sql_case_bucket_range])
      also have "\<dots> \<longleftrightarrow>
                (25 \<le> n \<and> n \<le> 40) \<or> (80 \<le> n \<and> n \<le> 100) \<or> (360 \<le> n \<and> n \<le> 390)
                \<or> n < 16 \<or> (44 < n \<and> n < 76) \<or> (104 < n \<and> n < 285) \<or> 404 < n"
        unfolding sql_case_bucket_cases bucket_plan_untagged_cases [OF rest]
        by arith
      finally have "sql_case_bucket n = bucket_plan g (Some n) \<longleftrightarrow>
                (25 \<le> n \<and> n \<le> 40) \<or> (80 \<le> n \<and> n \<le> 100) \<or> (360 \<le> n \<and> n \<le> 390)
                \<or> n < 16 \<or> (44 < n \<and> n < 76) \<or> (104 < n \<and> n < 285) \<or> 404 < n" .
      with g Some show ?thesis
        by (simp add: cohort_query_bucket_def coalesce_def)
    qed
  qed
qed

theorem cohort_query_bucket_agreement_witness:
  "cohort_query_bucket (Some 30) = bucket_plan (Some ''trial'') (Some 30)
   \<and> cohort_query_bucket (Some 20) \<noteq> bucket_plan (Some ''trial'') (Some 20)
   \<and> cohort_query_bucket None = bucket_plan (Some ''1m'') None"
  using cohort_query_bucket_agreement [of "Some 30" "Some ''trial''"]
    cohort_query_bucket_agreement [of "Some 20" "Some ''trial''"]
    cohort_query_bucket_agreement [of None "Some ''1m''"]
  by simp


subsection \<open>The renewal probability estimator\<close>

lemma map_of_fold_update:
  "distinct (map fst xs) \<Longrightarrow>
   map_of (fold (\<lambda>(k, v) acc. AList.update k (f v) acc) xs acc0) k =
     (case map_of xs k of None \<Rightarrow> map_of acc0 k | Some v \<Rightarrow> Some (f v))"
proof (induction xs arbitrary: acc0)
  case Nil
  then show ?case by simp
next
  case (Cons x xs)
  obtain a v where x: "x = (a, v)" by (cases x)
  from Cons.prems x have notin: "a \<notin> fst ` set xs" and d: "distinct (map fst xs)"
    by auto
  from notin have none: "map_of xs a = None"
    by (simp add: map_of_eq_None_iff)
  show ?case
    using Cons.IH [OF d, of "AList.update a (f v) acc0"] none
    by (simp add: x update_conv' split: option.splits)
qed

lemma distinct_add_cohort_row:
  "distinct (map fst totals) \<Longrightarrow> distinct (map fst (add_cohort_row row totals))"
  by (cases row) (simp add: add_cohort_row_def Let_def distinct_update split: prod.splits)

lemma distinct_fold_add_cohort_row:
  "distinct (map fst totals) \<Longrightarrow> distinct (map fst (fold add_cohort_row rows totals))"
  by (induction rows arbitrary: totals) (simp_all add: distinct_add_cohort_row)

lemma distinct_aggregate_totals: "distinct (map fst (aggregate_totals rows))"
  unfolding aggregate_totals_def
  by (rule distinct_fold_add_cohort_row) (simp add: initial_totals_def)

lemma estimate_lookup:
  "map_of (estimate_auto_renewal_probs rows) b =
     map_option smoothed_prob (map_of (aggregate_totals rows) b)"
  unfolding estimate_auto_renewal_probs_def probs_of_totals_def
  by (simp add: map_of_fold_update [OF distinct_aggregate_totals] split: option.splits)

lemma smoothed_prob_bounds: "0 \<le> smoothed_prob cr \<and> smoothed_prob cr \<le> 1"
  by (cases cr) (simp add: smoothed_prob_def Let_def)

lemma laplace_strict:
  assumes "0 < C" "0 \<le> R" "R \<le> C"
  shows "0 < real_of_int (R + 1) / real_of_int (C + 2)"
    and "real_of_int (R + 1) / real_of_int (C + 2) < 1"
  using assms by simp_all

text \<open>
  An empty cohort does not get one half: with no historical row at all, every bucket has
  the total \<open>(0, 0)\<close> and the estimator returns the probability 1 for it.
\<close>

theorem estimate_empty_cohort_counterexample:
  "map_of (aggregate_totals []) ''1m'' = Some (0, 0)
   \<and> map_of (estimate_auto_renewal_probs []) ''1m'' = Some 1
   \<and> map_of (estimate_auto_renewal_probs []) ''1m'' \<noteq> Some ((0 + 1) / (0 + 2))"
  by (simp add: estimate_lookup aggregate_totals_def initial_totals_def smoothed_prob_def)

text \<open>
  Claim C1, amended. For every list of rows of the cohort query and every bucket whose
  aggregated total is \<open>(C, R)\<close>: when the cohort is non-empty (\<open>C > 0\<close>) and
  \<open>0 \<le> R \<le> C\<close>, the estimator returns the Laplace-smoothed probability
  \<open>(R + 1) / (C + 2)\<close>, which lies strictly between 0 and 1; when the cohort is empty
  (\<open>C = 0\<close>, or below), it returns exactly 1.
\<close>

theorem estimate_auto_renewal_probs_smoothing:
  assumes "map_of (aggregate_totals rows) b = Some (C, R)"
  shows "(0 < C \<and> 0 \<le> R \<and> R \<le> C \<longrightarrow>
            map_of (estimate_auto_renewal_probs rows) b
              = Some (real_of_int (R + 1) / real_of_int (C + 2))
            \<and> 0 < real_of_int (R + 1) / real_of_int (C + 2)
            \<and> real_of_int (R + 1) / real_of_int (C + 2) < 1)
       \<and> (C \<le> 0 \<longrightarrow> map_of (estimate_auto_renewal_probs rows) b = Some 1)"
proof (intro conjI impI)
  assume h: "0 < C \<and> 0 \<le> R \<and> R \<le> C"
  then have lo: "0 < real_of_int (R + 1) / real_of_int (C + 2)"
    and hi: "real_of_int (R + 1) / real_of_int (C + 2) < 1"
    using laplace_strict [of C R] by simp_all
  from lo hi h have "smoothed_prob (C, R) = real_of_int (R + 1) / real_of_int (C + 2)"
    unfolding smoothed_prob_def Let_def prod.case by (simp only: if_True min_def max_def) simp
  with assms show "map_of (estimate_auto_renewal_probs rows) b
              = Some (real_of_int (R + 1) / real_of_int (C + 2))"
    by (simp add: estimate_lookup)
  from lo show "0 < real_of_int (R + 1) / real_of_int (C + 2)" .
  from hi show "real_of_int (R + 1) / real_of_int (C + 2) < 1" .
next
  assume "C \<le> 0"
  then have "smoothed_prob (C, R) = 1"
    by (simp add: smoothed_prob_def)
  with assms show "map_of (estimate_auto_renewal_probs rows) b = Some 1"
    by (simp add: estimate_lookup)
qed

theorem estimate_auto_renewal_probs_smoothing_witness:
  "map_of (aggregate_totals [(''1m'', Some 10, Some 4), (''1m'', Some 2, Some 2)]) ''1m'' = Some (12, 6)
   \<and> map_of (estimate_auto_renewal_probs [(''1m'', Some 10, Some 4), (''1m'', Some 2, Some 2)]) ''1m''
       = Some (1 / 2)
   \<and> map_of (aggregate_totals [(''1m'', Some 10, Some 4), (''1m'', Some 2, Some 2)]) ''3m'' = Some (0, 0)
   \<and> map_of (estimate_auto_renewal_probs [(''1m'', Some 10, Some 4), (''1m'', Some 2, Some 2)]) ''3m''
       = Some 1"
proof -
  let ?rows = "[(''1m'', Some 10, Some 4), (''1m'', Some 2, Some 2)] :: cohort_row list"
  have a: "map_of (aggregate_totals ?rows) ''1m'' = Some (12, 6)"
    by (simp add: aggregate_totals_def add_cohort_row_def initial_totals_def int_or_def)
  have b: "map_of (aggregate_totals ?rows) ''3m'' = Some (0, 0)"
    by (simp add: aggregate_totals_def add_cohort_row_def initial_totals_def int_or_def)
  show ?thesis
    using a b estimate_auto_renewal_probs_smoothing [OF a] estimate_auto_renewal_probs_smoothing [OF b]
    by simp
qed

subsection \<open>The month-start baseline\<close>

lemma distinct_fold_row_update:
  "distinct (map fst acc) \<Longrightarrow>
   distinct (map fst (fold (\<lambda>row d. AList.update (row_name row) (plan_entry row) d) rows acc))"
  by (induction rows arbitrary: acc) (simp_all add: distinct_update)

lemma distinct_expiring_of_rows: "distinct (map fst (expiring_of_rows rows))"
  unfolding expiring_of_rows_def by (rule distinct_fold_row_update) simp

lemma distinct_add_prev_row:
  "distinct (map fst acc) \<Longrightarrow> distinct (map fst (add_prev_row row acc))"
  by (simp add: add_prev_row_def Let_def distinct_update split: prod.splits option.splits)

lemma distinct_fold_add_prev_row:
  "distinct (map fst acc) \<Longrightarrow> distinct (map fst (fold add_prev_row rows acc))"
  by (induction rows arbitrary: acc) (simp_all add: distinct_add_prev_row)

lemma distinct_prev_data_of_rows: "distinct (map fst (prev_data_of_rows rows))"
  unfolding prev_data_of_rows_def by (rule distinct_fold_add_prev_row) simp

lemma map_of_merge_item:
  "map_of (merge_item (a, i) merged) k =
     (if k = a
      then Some (case map_of merged a of
                   None \<Rightarrow> i
                 | Some m \<Rightarrow> m\<lparr>count := count m + count i,
                               price := if price i \<noteq> 0 then price i else price m\<rparr>)
      else map_of merged k)"
  by (simp add: merge_item_def Let_def update_conv' split: option.splits)

lemma map_of_fold_merge_item:
  "distinct (map fst src) \<Longrightarrow>
   map_of (fold merge_item src merged) k =
     (case map_of src k of
        None \<Rightarrow> map_of merged k
      | Some i \<Rightarrow>
          Some (case map_of merged k of
                  None \<Rightarrow> i
                | Some m \<Rightarrow> m\<lparr>count := count m + count i,
                              price := if price i \<noteq> 0 then price i else price m\<rparr>))"
proof (induction src arbitrary: merged)
  case Nil
  then show ?case by simp
next
  case (Cons x xs)
  obtain a i where x: "x = (a, i)" by (cases x)
  from Cons.prems x have "a \<notin> fst ` set xs" and d: "distinct (map fst xs)"
    by auto
  then have none: "map_of xs a = None"
    by (simp add: map_of_eq_None_iff)
  show ?case
  proof (cases "k = a")
    case True
    show ?thesis
      using Cons.IH [OF d, of "merge_item (a, i) merged"] none
      by (simp add: x True map_of_merge_item)
  next
    case False
    show ?thesis
      using Cons.IH [OF d, of "merge_item (a, i) merged"]
      by (simp add: x False map_of_merge_item split: option.splits)
  qed
qed

lemma map_of_merge_snapshots:
  assumes "distinct (map fst current)" "distinct (map fst prev_data)"
  shows "map_of (merge_snapshots current prev_data) k =
     (case map_of prev_data k of
        None \<Rightarrow> map_of current k
      | Some i \<Rightarrow>
          Some (case map_of current k of
                  None \<Rightarrow> i
                | Some m \<Rightarrow> m\<lparr>count := count m + count i,
                              price := if price i \<noteq> 0 then price i else price m\<rparr>))"
proof -
  have cur: "map_of (fold merge_item current []) k = map_of current k"
    by (simp add: map_of_fold_merge_item [OF assms(1)] split: option.splits)
  show ?thesis
    unfolding merge_snapshots_def
    by (simp add: map_of_fold_merge_item [OF assms(2)] cur split: option.splits)
qed

text \<open>
  Claim C9. The month-start baseline is the value merge of the current-month expiring
  snapshot and the snapshot of subscriptions whose implied previous cycle ended in the
  window. A plan name found in one snapshot only keeps that snapshot's entry. A plan name
  found in both keeps the entry of the current snapshot with the two counts added, and
  with the price of the previous-cycle snapshot when that price is not null (not zero),
  else the price of the current snapshot. So 5 currently expiring and 3 already renewed
  subscriptions of plan A give the baseline count 8.
\<close>

theorem baseline_is_value_merge:
  "map_of (get_baseline_expiring_by_plan current_rows prev_rows) plan_name =
     (case (map_of (expiring_of_rows current_rows) plan_name,
            map_of (prev_data_of_rows prev_rows) plan_name) of
        (None, None) \<Rightarrow> None
      | (Some a, None) \<Rightarrow> Some a
      | (None, Some b) \<Rightarrow> Some b
      | (Some a, Some b) \<Rightarrow>
          Some (a\<lparr>count := count a + count b,
                  price := if price b \<noteq> 0 then price b else price a\<rparr>))"
  unfolding get_baseline_expiring_by_plan_def
  by (simp add: map_of_merge_snapshots [OF distinct_expiring_of_rows distinct_prev_data_of_rows]
      split: option.splits)

theorem baseline_is_value_merge_witness:
  "map_option count
     (map_of (get_baseline_expiring_by_plan
                [(1, ''A'', None, Some 5, Some 100, Some 30)]
                [(1, ''A'', None, Some 3, None, Some 30)]) ''A'') = Some 8
   \<and> map_option price
     (map_of (get_baseline_expiring_by_plan
                [(1, ''A'', None, Some 5, Some 100, Some 30)]
                [(1, ''A'', None, Some 3, None, Some 30)]) ''A'') = Some 100"
  using baseline_is_value_merge
          [of "[(1, ''A'', None, Some 5, Some 100, Some 30)]"
              "[(1, ''A'', None, Some 3, None, Some 30)]" "''A''"]
  by (simp add: expiring_of_rows_def prev_data_of_rows_def add_prev_row_def plan_entry_def
      row_name_def int_or_def real_or_def)

subsection \<open>The forecast compositor\<close>

lemma forecast_step_pair:
  "forecast_step ov g (code, i) (fc, plans) =
     (fc + price i * real_of_int (count i) * resolve_prob ov g code i,
      AList.update code
        \<lparr>info = i, expected = price i * real_of_int (count i) * resolve_prob ov g code i,
         prob = resolve_prob ov g code i\<rparr> plans)"
  by (simp add: forecast_step_def Let_def)

lemma fold_forecast_step_fst:
  "fst (fold (forecast_step ov g) xs (fc, plans)) =
     fc + sum_list (map (\<lambda>(code, i). price i * real_of_int (count i) * resolve_prob ov g code i) xs)"
proof (induction xs arbitrary: fc plans)
  case Nil
  then show ?case by simp
next
  case (Cons x xs)
  obtain code i where x: "x = (code, i)" by (cases x)
  show ?case
    by (simp add: x forecast_step_pair Cons.IH)
qed

lemma compute_forecast_forecast:
  "forecast (compute_forecast expiring rcv probs g) =
     sum_list (map (\<lambda>(code, i). price i * real_of_int (count i)
                      * resolve_prob (case probs of None \<Rightarrow> [] | Some d \<Rightarrow> d) g code i) expiring)"
proof -
  let ?ov = "case probs of None \<Rightarrow> [] | Some d \<Rightarrow> d"
  obtain fc plans where f: "fold (forecast_step ?ov g) expiring (0, []) = (fc, plans)"
    by (cases "fold (forecast_step ?ov g) expiring (0, [])")
  have "fc = fst (fold (forecast_step ?ov g) expiring (0, []))"
    by (simp add: f)
  then have "fc = sum_list (map (\<lambda>(code, i). price i * real_of_int (count i)
                      * resolve_prob ?ov g code i) expiring)"
    by (simp add: fold_forecast_step_fst)
  then show ?thesis
    by (simp add: compute_forecast_def Let_def f)
qed

lemma compute_forecast_to_earn:
  "to_earn (compute_forecast expiring rcv probs g) =
     max 0 (forecast (compute_forecast expiring rcv probs g)
            - received (compute_forecast expiring rcv probs g))"
  by (simp add: compute_forecast_def Let_def split: prod.splits)

lemma or_else_nonneg:
  assumes "\<And>x. a = Some x \<Longrightarrow> 0 \<le> x" "\<And>x. b = Some x \<Longrightarrow> 0 \<le> x" "or_else a b = Some y"
  shows "0 \<le> y"
  using assms by (auto simp: or_else_def split: option.splits if_splits)

lemma resolve_prob_nonneg:
  assumes ov: "\<And>k v. map_of ov k = Some v \<Longrightarrow> 0 \<le> v"
    and g: "\<And>x. g = Some x \<Longrightarrow> 0 \<le> x"
  shows "0 \<le> resolve_prob ov g code i"
proof -
  let ?a = "or_else (map_of ov code) (dict_get_opt ov (group_code i))"
  let ?b = "or_else ?a (map_of ov (bucket i))"
  have gc: "\<And>x. dict_get_opt ov (group_code i) = Some x \<Longrightarrow> 0 \<le> x"
    using ov by (auto simp: dict_get_opt_def split: option.splits)
  have a: "\<And>x. ?a = Some x \<Longrightarrow> 0 \<le> x"
    by (rule or_else_nonneg [of "map_of ov code" "dict_get_opt ov (group_code i)"]) (auto dest: ov gc)
  have b: "\<And>x. ?b = Some x \<Longrightarrow> 0 \<le> x"
    by (rule or_else_nonneg [of ?a "map_of ov (bucket i)"]) (auto dest: ov a)
  have d: "0 \<le> (case g of Some x \<Rightarrow> x | None \<Rightarrow> 1)"
    using g by (cases g) auto
  show ?thesis
    unfolding resolve_prob_def real_or_def
    using b d by (cases ?b) auto
qed

lemma forecast_nonneg:
  assumes "\<And>code i. (code, i) \<in> set expiring \<Longrightarrow> 0 \<le> price i \<and> 0 \<le> count i"
    and "\<And>k v. map_of (case probs of None \<Rightarrow> [] | Some d \<Rightarrow> d) k = Some v \<Longrightarrow> 0 \<le> v"
    and "\<And>x. g = Some x \<Longrightarrow> 0 \<le> x"
  shows "0 \<le> forecast (compute_forecast expiring rcv probs g)"
  unfolding compute_forecast_forecast
proof (rule sum_list_nonneg)
  fix x
  assume "x \<in> set (map (\<lambda>(code, i). price i * real_of_int (count i)
                      * resolve_prob (case probs of None \<Rightarrow> [] | Some d \<Rightarrow> d) g code i) expiring)"
  then obtain code i where m: "(code, i) \<in> set expiring"
    and x: "x = price i * real_of_int (count i)
                * resolve_prob (case probs of None \<Rightarrow> [] | Some d \<Rightarrow> d) g code i"
    by auto
  from assms(1) [OF m] have "0 \<le> price i" "0 \<le> real_of_int (count i)" by simp_all
  moreover have "0 \<le> resolve_prob (case probs of None \<Rightarrow> [] | Some d \<Rightarrow> d) g code i"
    by (rule resolve_prob_nonneg) (auto dest: assms(2) assms(3))
  ultimately show "0 \<le> x"
    unfolding x by (intro mult_nonneg_nonneg)
qed

lemma resolve_prob_by_name:
  "map_of ov code = Some v \<Longrightarrow> v \<noteq> 0 \<Longrightarrow> resolve_prob ov g code i = v"
  by (simp add: resolve_prob_def or_else_def real_or_def)

lemma resolve_prob_default:
  "map_of ov code = None \<Longrightarrow> dict_get_opt ov (group_code i) = None \<Longrightarrow>
   map_of ov (bucket i) = None \<Longrightarrow>
   resolve_prob ov g code i = (case g of Some x \<Rightarrow> x | None \<Rightarrow> 1)"
  by (simp add: resolve_prob_def or_else_def real_or_def)

text \<open>
  Claim C6 at the failing input. Plan A (one subscription, price 100, bucket
  \<^verbatim>\<open>1m\<close>) has the override 0 under its own name, and the bucket \<^verbatim>\<open>1m\<close> has the override
  one half. The override keyed by the plan name is falsy for \<^verbatim>\<open>or\<close>, so the compositor
  passes on to the bucket override: the probability used is one half and the forecast is
  50, where the override by name gives the probability 0 and the forecast 0.
\<close>

theorem compute_forecast_zero_override_skipped:
  "forecast (compute_forecast
      [(''A'', \<lparr>count = 1, price = 100, period_months = Some 1, group_code = None, bucket = ''1m''\<rparr>)]
      [(''net'', 0)] (Some [(''A'', 0), (''1m'', 1 / 2)]) None) = 50
   \<and> map_option prob (map_of (by_plans (compute_forecast
      [(''A'', \<lparr>count = 1, price = 100, period_months = Some 1, group_code = None, bucket = ''1m''\<rparr>)]
      [(''net'', 0)] (Some [(''A'', 0), (''1m'', 1 / 2)]) None)) ''A'') = Some (1 / 2)"
  by (simp add: compute_forecast_def forecast_step_def resolve_prob_def or_else_def real_or_def
      dict_get_opt_def Let_def)

subsection \<open>Report assembly\<close>

lemma estimate_value_nonneg:
  "map_of (estimate_auto_renewal_probs rows) k = Some v \<Longrightarrow> 0 \<le> v"
  using smoothed_prob_bounds by (auto simp: estimate_lookup)

lemma probs_to_use_nonneg:
  assumes "\<And>ov k v. PLAN_PROB_OVERRIDES st = Some ov \<Longrightarrow> map_of ov k = Some v \<Longrightarrow> 0 \<le> v"
    and "map_of (fst (probs_to_use st cohort_rows)) k = Some v"
  shows "0 \<le> v"
proof (cases "PLAN_PROB_OVERRIDES st")
  case None
  with assms(2) show ?thesis
    by (auto simp: probs_to_use_def Let_def split: if_splits dest: estimate_value_nonneg)
next
  case (Some ov)
  with assms(2) have "map_of ov k = Some v \<or> map_of (estimate_auto_renewal_probs cohort_rows) k = Some v"
    by (auto simp: probs_to_use_def Let_def split: if_splits)
  then show ?thesis
    using assms(1) [OF Some] estimate_value_nonneg by blast
qed

lemma probs_to_use_global:
  "snd (probs_to_use st cohort_rows) = Some x \<Longrightarrow> RENEWAL_PROBABILITY st = Some x"
  by (auto simp: probs_to_use_def Let_def split: if_splits)

lemma render_summary_data:
  "data (render_summary st expiring baseline_expiring rcv cohort_rows accrual_rows) =
     compute_forecast expiring rcv (Some (fst (probs_to_use st cohort_rows)))
       (snd (probs_to_use st cohort_rows))"
  by (simp add: render_summary_def Let_def split: prod.splits)

lemma render_summary_plan_baseline:
  "plan_baseline (render_summary st expiring baseline_expiring rcv cohort_rows accrual_rows) =
     forecast (compute_forecast baseline_expiring [(''net'', 0), (''paid'', 0), (''refunds'', 0)]
                 (Some (fst (probs_to_use st cohort_rows))) (snd (probs_to_use st cohort_rows)))"
  by (simp add: render_summary_def Let_def split: prod.splits)

lemma render_summary_plan_gap:
  "plan_gap (render_summary st expiring baseline_expiring rcv cohort_rows accrual_rows) =
     (let s = render_summary st expiring baseline_expiring rcv cohort_rows accrual_rows;
          mode = (case COMPLETION_MODE st of None \<Rightarrow> ''cash'' | Some m \<Rightarrow> m)
      in if 0 < plan_baseline s
         then (if mode = ''plan_vs_forecast'' then forecast (data s)
               else if mode = ''accrual''
               then max 0 (plan_baseline s - recognized_total_of accrual_rows)
               else max 0 (plan_baseline s - received (data s)))
         else 0)"
  by (simp add: render_summary_def Let_def split: prod.splits)

lemma render_summary_pct:
  "plan_completion_pct (render_summary st expiring baseline_expiring rcv cohort_rows accrual_rows) =
     (let s = render_summary st expiring baseline_expiring rcv cohort_rows accrual_rows;
          mode = (case COMPLETION_MODE st of None \<Rightarrow> ''cash'' | Some m \<Rightarrow> m)
      in if 0 < plan_baseline s
         then (if mode = ''plan_vs_forecast''
               then Some (max 0 (min 100
                      ((plan_baseline s - forecast (data s)) / plan_baseline s * 100)))
               else if mode = ''accrual''
               then Some (recognized_total_of accrual_rows / plan_baseline s * 100)
               else Some (received (data s) / plan_baseline s * 100))
         else None)"
  by (simp add: render_summary_def Let_def split: prod.splits)

text \<open>
  Claim C5. For valid inputs (no plan of the live snapshot has a negative price or count,
  no configured override and no configured global probability is negative), the report
  has \<open>to_earn = max 0 (forecast - received)\<close>, hence \<open>to_earn \<ge> 0\<close> also when more was
  received than forecast, and \<open>plan_gap \<ge> 0\<close> whatever the completion mode and whatever
  the plan baseline, zero included.
\<close>

theorem report_non_negative:
  assumes "\<forall>(code, i) \<in> set expiring. 0 \<le> price i \<and> 0 \<le> count i"
    and "\<forall>ov. PLAN_PROB_OVERRIDES st = Some ov \<longrightarrow> (\<forall>(k, v) \<in> set ov. 0 \<le> v \<and> v \<le> 1)"
    and "\<forall>x. RENEWAL_PROBABILITY st = Some x \<longrightarrow> 0 \<le> x \<and> x \<le> 1"
  shows "to_earn (data (render_summary st expiring baseline_expiring rcv cohort_rows accrual_rows))
           = max 0 (forecast (data (render_summary st expiring baseline_expiring rcv cohort_rows accrual_rows))
                    - received (data (render_summary st expiring baseline_expiring rcv cohort_rows accrual_rows)))
       \<and> 0 \<le> to_earn (data (render_summary st expiring baseline_expiring rcv cohort_rows accrual_rows))
       \<and> 0 \<le> plan_gap (render_summary st expiring baseline_expiring rcv cohort_rows accrual_rows)"
proof -
  let ?s = "render_summary st expiring baseline_expiring rcv cohort_rows accrual_rows"
  have te: "to_earn (data ?s) = max 0 (forecast (data ?s) - received (data ?s))"
    unfolding render_summary_data by (rule compute_forecast_to_earn)
  have ov: "\<And>ov k v. PLAN_PROB_OVERRIDES st = Some ov \<Longrightarrow> map_of ov k = Some v \<Longrightarrow> 0 \<le> v"
    using assms(2) by (auto dest!: map_of_SomeD)
  have fc: "0 \<le> forecast (data ?s)"
    unfolding render_summary_data
  proof (rule forecast_nonneg)
    fix code i assume "(code, i) \<in> set expiring"
    with assms(1) show "0 \<le> price i \<and> 0 \<le> count i" by auto
  next
    fix k v
    assume "map_of (case Some (fst (probs_to_use st cohort_rows)) of None \<Rightarrow> [] | Some d \<Rightarrow> d) k = Some v"
    then have "map_of (fst (probs_to_use st cohort_rows)) k = Some v" by simp
    then show "0 \<le> v" by (rule probs_to_use_nonneg [rotated]) (rule ov)
  next
    fix x assume "snd (probs_to_use st cohort_rows) = Some x"
    then have "RENEWAL_PROBABILITY st = Some x" by (rule probs_to_use_global)
    with assms(3) show "0 \<le> x" by simp
  qed
  have gap: "0 \<le> plan_gap ?s"
    using fc by (subst render_summary_plan_gap) (simp add: Let_def)
  from te gap show ?thesis by simp
qed

theorem report_non_negative_witness:
  "to_earn (data (render_summary
      \<lparr>SKIP_FROZEN = False, EXCLUDE_TRIALS = False, PLAN_PROB_OVERRIDES = Some [(''1m'', 1 / 2)],
       RENEWAL_PROBABILITY = Some 1, COMPLETION_MODE = Some ''plan_vs_forecast''\<rparr>
      [(''A'', \<lparr>count = 1, price = 100, period_months = Some 1, group_code = None, bucket = ''1m''\<rparr>)]
      [] [(''net'', 80)] [] [])) = 0
   \<and> plan_gap (render_summary
      \<lparr>SKIP_FROZEN = False, EXCLUDE_TRIALS = False, PLAN_PROB_OVERRIDES = Some [(''1m'', 1 / 2)],
       RENEWAL_PROBABILITY = Some 1, COMPLETION_MODE = Some ''plan_vs_forecast''\<rparr>
      [(''A'', \<lparr>count = 1, price = 100, period_months = Some 1, group_code = None, bucket = ''1m''\<rparr>)]
      [] [(''net'', 80)] [] []) = 0"
proof -
  let ?st = "\<lparr>SKIP_FROZEN = False, EXCLUDE_TRIALS = False, PLAN_PROB_OVERRIDES = Some [(''1m'', 1 / 2)],
       RENEWAL_PROBABILITY = Some 1, COMPLETION_MODE = Some ''plan_vs_forecast''\<rparr>"
  let ?e = "[(''A'', \<lparr>count = 1, price = 100, period_months = Some 1, group_code = None, bucket = ''1m''\<rparr>)]"
  have h1: "\<forall>(code, i) \<in> set ?e. 0 \<le> price i \<and> 0 \<le> count i" by simp
  have h2: "\<forall>ov. PLAN_PROB_OVERRIDES ?st = Some ov \<longrightarrow> (\<forall>(k, v) \<in> set ov. 0 \<le> v \<and> v \<le> 1)" by simp
  have h3: "\<forall>x. RENEWAL_PROBABILITY ?st = Some x \<longrightarrow> 0 \<le> x \<and> x \<le> 1" by simp
  have f: "forecast (compute_forecast ?e [(''net'', 80)] (Some [(''1m'', 1 / 2)]) (Some 1)) = 50"
    and r: "received (compute_forecast ?e [(''net'', 80)] (Some [(''1m'', 1 / 2)]) (Some 1)) = 80"
    by (simp_all add: compute_forecast_def forecast_step_def resolve_prob_def or_else_def real_or_def
        dict_get_opt_def Let_def)
  have p: "probs_to_use ?st [] = ([(''1m'', 1 / 2)], Some 1)"
    by (simp add: probs_to_use_def)
  have b: "plan_baseline (render_summary ?st ?e [] [(''net'', 80)] [] []) = 0"
    by (simp add: render_summary_plan_baseline p compute_forecast_def)
  from report_non_negative [OF h1 h2 h3, of "[]" "[(''net'', 80)]" "[]" "[]"]
  show ?thesis
    by (simp add: render_summary_data render_summary_plan_gap Let_def p f r b)
qed

text \<open>
  Claim C10. In the completion mode \<^verbatim>\<open>plan_vs_forecast\<close>, when the plan baseline is
  positive, the completion percentage is
  \<open>(plan_baseline - forecast) / plan_baseline * 100\<close> clamped to the interval from 0 to
  100, so it is 0 when the live forecast exceeds the baseline; and the plan gap is the
  live forecast.
\<close>

theorem plan_vs_forecast_clamped:
  assumes "COMPLETION_MODE st = Some ''plan_vs_forecast''"
    and "0 < plan_baseline (render_summary st expiring baseline_expiring rcv cohort_rows accrual_rows)"
  shows "\<exists>pct. plan_completion_pct (render_summary st expiring baseline_expiring rcv cohort_rows accrual_rows)
                 = Some pct
           \<and> pct = max 0 (min 100
               ((plan_baseline (render_summary st expiring baseline_expiring rcv cohort_rows accrual_rows)
                 - forecast (data (render_summary st expiring baseline_expiring rcv cohort_rows accrual_rows)))
                / plan_baseline (render_summary st expiring baseline_expiring rcv cohort_rows accrual_rows)
                * 100))
           \<and> 0 \<le> pct \<and> pct \<le> 100
           \<and> (plan_baseline (render_summary st expiring baseline_expiring rcv cohort_rows accrual_rows)
                < forecast (data (render_summary st expiring baseline_expiring rcv cohort_rows accrual_rows))
              \<longrightarrow> pct = 0)
           \<and> plan_gap (render_summary st expiring baseline_expiring rcv cohort_rows accrual_rows)
               = forecast (data (render_summary st expiring baseline_expiring rcv cohort_rows accrual_rows))"
proof -
  let ?s = "render_summary st expiring baseline_expiring rcv cohort_rows accrual_rows"
  let ?q = "(plan_baseline ?s - forecast (data ?s)) / plan_baseline ?s * 100"
  have pct: "plan_completion_pct ?s = Some (max 0 (min 100 ?q))"
    using assms by (subst render_summary_pct) (simp add: Let_def)
  have gap: "plan_gap ?s = forecast (data ?s)"
    using assms by (subst render_summary_plan_gap) (simp add: Let_def)
  have neg: "plan_baseline ?s < forecast (data ?s) \<longrightarrow> max 0 (min 100 ?q) = 0"
  proof
    assume "plan_baseline ?s < forecast (data ?s)"
    with assms(2) have "?q \<le> 0"
      by (simp add: divide_le_0_iff mult_le_0_iff)
    then show "max 0 (min 100 ?q) = 0" by simp
  qed
  have rng: "0 \<le> max 0 (min 100 ?q) \<and> max 0 (min 100 ?q) \<le> 100" by simp
  from pct gap neg rng show ?thesis by blast
qed

theorem plan_vs_forecast_clamped_witness:
  "plan_completion_pct (render_summary
      \<lparr>SKIP_FROZEN = False, EXCLUDE_TRIALS = False, PLAN_PROB_OVERRIDES = None,
       RENEWAL_PROBABILITY = Some 1, COMPLETION_MODE = Some ''plan_vs_forecast''\<rparr>
      [(''A'', \<lparr>count = 3, price = 100, period_months = Some 1, group_code = None, bucket = ''1m''\<rparr>)]
      [(''A'', \<lparr>count = 2, price = 100, period_months = Some 1, group_code = None, bucket = ''1m''\<rparr>)]
      [(''net'', 0)] [] []) = Some 0
   \<and> plan_gap (render_summary
      \<lparr>SKIP_FROZEN = False, EXCLUDE_TRIALS = False, PLAN_PROB_OVERRIDES = None,
       RENEWAL_PROBABILITY = Some 1, COMPLETION_MODE = Some ''plan_vs_forecast''\<rparr>
      [(''A'', \<lparr>count = 3, price = 100, period_months = Some 1, group_code = None, bucket = ''1m''\<rparr>)]
      [(''A'', \<lparr>count = 2, price = 100, period_months = Some 1, group_code = None, bucket = ''1m''\<rparr>)]
      [(''net'', 0)] [] []) = 300"
proof -
  let ?st = "\<lparr>SKIP_FROZEN = False, EXCLUDE_TRIALS = False, PLAN_PROB_OVERRIDES = None,
       RENEWAL_PROBABILITY = Some 1, COMPLETION_MODE = Some ''plan_vs_forecast''\<rparr>"
  let ?e = "[(''A'', \<lparr>count = 3, price = 100, period_months = Some 1, group_code = None, bucket = ''1m''\<rparr>)]"
  let ?b = "[(''A'', \<lparr>count = 2, price = 100, period_months = Some 1, group_code = None, bucket = ''1m''\<rparr>)]"
  have p: "probs_to_use ?st [] = ([], Some 1)"
    by (simp add: probs_to_use_def)
  have f: "forecast (compute_forecast ?e [(''net'', 0)] (Some []) (Some 1)) = 300"
    by (simp add: compute_forecast_def forecast_step_def resolve_prob_def or_else_def real_or_def
        dict_get_opt_def Let_def)
  have b: "forecast (compute_forecast ?b [(''net'', 0), (''paid'', 0), (''refunds'', 0)] (Some []) (Some 1)) = 200"
    by (simp add: compute_forecast_def forecast_step_def resolve_prob_def or_else_def real_or_def
        dict_get_opt_def Let_def)
  have m: "COMPLETION_MODE ?st = Some ''plan_vs_forecast''" by simp
  have pos: "0 < plan_baseline (render_summary ?st ?e ?b [(''net'', 0)] [] [])"
    by (simp add: render_summary_plan_baseline p b)
  from plan_vs_forecast_clamped [OF m pos]
  show ?thesis
    by (simp add: render_summary_data render_summary_plan_baseline p f b)
qed

subsection \<open>The merged candidate cohort\<close>

lemma keep_latest_tg_set:
  "set (map p_tg_id (keep_latest p qs)) = insert (p_tg_id p) (set (map p_tg_id qs))"
  by (induction qs) auto

lemma keep_latest_distinct:
  "distinct (map p_tg_id qs) \<Longrightarrow> distinct (map p_tg_id (keep_latest p qs))"
proof (induction qs)
  case Nil
  then show ?case by simp
next
  case (Cons q qs)
  show ?case
  proof (cases "p_tg_id q = p_tg_id p")
    case True
    with Cons.prems show ?thesis by auto
  next
    case False
    from Cons.prems have "p_tg_id q \<notin> set (map p_tg_id qs)" and d: "distinct (map p_tg_id qs)"
      by simp_all
    with False have "p_tg_id q \<notin> set (map p_tg_id (keep_latest p qs))"
      unfolding keep_latest_tg_set by simp
    with False Cons.IH [OF d] show ?thesis by simp
  qed
qed

lemma fold_keep_latest_distinct:
  "distinct (map p_tg_id acc) \<Longrightarrow> distinct (map p_tg_id (fold keep_latest ps acc))"
  by (induction ps arbitrary: acc) (simp_all add: keep_latest_distinct)

lemma last_pays_distinct: "distinct (map fst (last_pays payments dt_end))"
proof -
  have "map fst (last_pays payments dt_end) =
        map p_tg_id (fold keep_latest
          [p. p \<leftarrow> payments, p_created_at p < dt_end, p_status p = ''success''] [])"
    by (simp add: last_pays_def comp_def)
  then show ?thesis
    by (simp add: fold_keep_latest_distinct)
qed

lemma fallback_of_row:
  "r \<in> set (fallback_of ids plan_map dt_start dt_end lp) \<Longrightarrow>
     cand_tg r = fst lp \<and> fst lp \<notin> ids \<and> fst r = None"
  by (cases lp)
    (auto simp: fallback_of_def cand_tg_def Let_def split: if_splits option.splits prod.splits)

lemma fallback_of_short: "length (fallback_of ids plan_map dt_start dt_end lp) \<le> 1"
  by (cases lp) (simp add: fallback_of_def Let_def split: option.splits prod.splits)

lemma fallback_of_distinct: "distinct (map cand_tg (fallback_of ids plan_map dt_start dt_end lp))"
proof -
  have "length (map cand_tg (fallback_of ids plan_map dt_start dt_end lp)) \<le> 1"
    using fallback_of_short [of ids plan_map dt_start dt_end lp] by simp
  then show ?thesis
    by (cases "map cand_tg (fallback_of ids plan_map dt_start dt_end lp)") auto
qed

lemma concat_fallback_distinct:
  "distinct (map fst lps) \<Longrightarrow>
   distinct (map cand_tg (concat (map (fallback_of ids plan_map dt_start dt_end) lps)))"
proof (induction lps)
  case Nil
  then show ?case by simp
next
  case (Cons lp lps)
  define A where "A = fallback_of ids plan_map dt_start dt_end lp"
  define B where "B = concat (map (fallback_of ids plan_map dt_start dt_end) lps)"
  from Cons.prems have notin: "fst lp \<notin> fst ` set lps" and d: "distinct (map fst lps)"
    by auto
  have inA: "cand_tg r = fst lp" if "r \<in> set A" for r
    using that fallback_of_row [of r ids plan_map dt_start dt_end lp] by (simp add: A_def)
  have inB: "cand_tg r \<in> fst ` set lps" if "r \<in> set B" for r
  proof -
    from that obtain lp' where "lp' \<in> set lps"
      and "r \<in> set (fallback_of ids plan_map dt_start dt_end lp')"
      by (auto simp: B_def)
    then show ?thesis
      using fallback_of_row [of r ids plan_map dt_start dt_end lp'] by (metis imageI)
  qed
  have "cand_tg ` set A \<inter> cand_tg ` set B = {}"
  proof (rule ccontr)
    assume "cand_tg ` set A \<inter> cand_tg ` set B \<noteq> {}"
    then obtain a b where "a \<in> set A" "b \<in> set B" "cand_tg a = cand_tg b" by blast
    with inA [of a] inB [of b] notin show False by simp
  qed
  moreover have "distinct (map cand_tg A)"
    unfolding A_def by (rule fallback_of_distinct)
  moreover have "distinct (map cand_tg B)"
    unfolding B_def by (rule Cons.IH [OF d])
  ultimately have "distinct (map cand_tg (A @ B))" by simp
  then show ?case by (simp add: A_def B_def)
qed

lemma distinct_map_filter_one:
  "distinct (map f xs) \<Longrightarrow> x \<in> set xs \<Longrightarrow> length (filter (\<lambda>c. f c = f x) xs) = 1"
proof (induction xs)
  case Nil
  then show ?case by simp
next
  case (Cons a xs)
  from Cons.prems(1) have fa: "f a \<notin> f ` set xs" and d: "distinct (map f xs)"
    by simp_all
  show ?case
  proof (cases "f a = f x")
    case True
    with fa have "\<forall>c \<in> set xs. f c \<noteq> f x" by (metis imageI)
    then have "filter (\<lambda>c. f c = f x) xs = []" by (simp add: filter_empty_conv)
    with True show ?thesis by simp
  next
    case False
    with Cons.prems(2) have "x \<in> set xs" by auto
    from Cons.IH [OF d this] False show ?thesis by simp
  qed
qed

text \<open>
  A small store used below, for the 31-day window from instant 0 to instant 2678400000
  (31 days in milliseconds): account 7 holds a 30-day subscription that expires at the end
  of the window and paid 20 days (1728000000 ms) before the window; account 8 holds no
  subscription and paid the price of the same plan 20 days before the window.
\<close>

lemma example_q_candidates:
  "q_candidates
     \<lparr>SKIP_FROZEN = False, EXCLUDE_TRIALS = False, PLAN_PROB_OVERRIDES = None,
      RENEWAL_PROBABILITY = None, COMPLETION_MODE = None\<rparr>
     [\<lparr>k_tg_id = 7, k_expiry_time = 2678400000, k_tariff_id = 1, k_is_frozen = Some False\<rparr>]
     [\<lparr>t_id = 1, t_group_code = None, t_duration_days = Some 30, t_price_rub = Some 100\<rparr>]
     (timestamp_ms 0) (timestamp_ms (2678400000))
   = [(Some (2678400000), None, Some 30, Some 100, 7)]"
  by (simp add: q_candidates_def prev_expiry_ms_def coalesce_def timestamp_ms_def)

lemma example_fallback_rows:
  "fallback_rows
     \<lparr>SKIP_FROZEN = False, EXCLUDE_TRIALS = False, PLAN_PROB_OVERRIDES = None,
      RENEWAL_PROBABILITY = None, COMPLETION_MODE = None\<rparr>
     [\<lparr>k_tg_id = 7, k_expiry_time = 2678400000, k_tariff_id = 1, k_is_frozen = Some False\<rparr>]
     [\<lparr>t_id = 1, t_group_code = None, t_duration_days = Some 30, t_price_rub = Some 100\<rparr>]
     [\<lparr>p_tg_id = 7, p_amount = Some 100, p_status = ''success'', p_created_at = - 1728000000\<rparr>,
      \<lparr>p_tg_id = 8, p_amount = Some 100, p_status = ''success'', p_created_at = - 1728000000\<rparr>]
     0 (2678400000)
   = [(None, None, Some 30, Some 100, 8)]"
proof -
  let ?pays = "[\<lparr>p_tg_id = 7, p_amount = Some 100, p_status = ''success'', p_created_at = - 1728000000\<rparr>,
      \<lparr>p_tg_id = 8, p_amount = Some 100, p_status = ''success'', p_created_at = - 1728000000\<rparr>]"
  let ?plans = "[\<lparr>t_id = 1, t_group_code = None, t_duration_days = Some 30, t_price_rub = Some 100\<rparr>]"
  have lp: "last_pays ?pays (2678400000)
           = [(7, Some 100, - 1728000000), (8, Some 100, - 1728000000)]"
    by (simp add: last_pays_def)
  have pp: "price_to_plan ?plans = [(100, 30, None)]"
    by (simp add: price_to_plan_def add_price_plan_def py_int_def real_or_def int_or_def)
  have r: "py_round (real_or (Some 100) 0) = 100"
    by (simp add: py_round_def real_or_def)
  show ?thesis
    unfolding fallback_rows_def Let_def example_q_candidates lp pp
    by (simp add: fallback_of_def cand_tg_def r int_or_def days_ms_def)
qed

lemma example_merged_candidates:
  "merged_candidates
     \<lparr>SKIP_FROZEN = False, EXCLUDE_TRIALS = False, PLAN_PROB_OVERRIDES = None,
      RENEWAL_PROBABILITY = None, COMPLETION_MODE = None\<rparr>
     [\<lparr>k_tg_id = 7, k_expiry_time = 2678400000, k_tariff_id = 1, k_is_frozen = Some False\<rparr>]
     [\<lparr>t_id = 1, t_group_code = None, t_duration_days = Some 30, t_price_rub = Some 100\<rparr>]
     [\<lparr>p_tg_id = 7, p_amount = Some 100, p_status = ''success'', p_created_at = - 1728000000\<rparr>,
      \<lparr>p_tg_id = 8, p_amount = Some 100, p_status = ''success'', p_created_at = - 1728000000\<rparr>]
     0 (2678400000)
   = [(Some (2678400000), None, Some 30, Some 100, 7), (None, None, Some 30, Some 100, 8)]"
  by (simp add: merged_candidates_def example_q_candidates example_fallback_rows)

lemma example_report:
  "calc_retention_churn
     \<lparr>SKIP_FROZEN = False, EXCLUDE_TRIALS = False, PLAN_PROB_OVERRIDES = None,
      RENEWAL_PROBABILITY = None, COMPLETION_MODE = None\<rparr>
     [\<lparr>k_tg_id = 7, k_expiry_time = 2678400000, k_tariff_id = 1, k_is_frozen = Some False\<rparr>]
     [\<lparr>t_id = 1, t_group_code = None, t_duration_days = Some 30, t_price_rub = Some 100\<rparr>]
     [\<lparr>p_tg_id = 7, p_amount = Some 100, p_status = ''success'', p_created_at = - 1728000000\<rparr>,
      \<lparr>p_tg_id = 8, p_amount = Some 100, p_status = ''success'', p_created_at = - 1728000000\<rparr>]
     0 (2678400000) None None
   = \<lparr>retention_rate = Some (1 / 2), churn_rate = Some (1 / 2), renewed_count = 1,
      not_renewed_yet = 1, predicted_churn = 0\<rparr>"
proof -
  have b: "bucket_plan None (Some 30) = ''1m''"
    by (simp add: bucket_plan_by_days)
  have p: "paid_in_month
      [\<lparr>p_tg_id = 7, p_amount = Some 100, p_status = ''success'', p_created_at = - 1728000000\<rparr>,
      \<lparr>p_tg_id = 8, p_amount = Some 100, p_status = ''success'', p_created_at = - 1728000000\<rparr>]
      0 (2678400000) = []"
    by (simp add: paid_in_month_def)
  show ?thesis
    unfolding calc_retention_churn_def example_merged_candidates p
    by (simp add: report_of_candidates_def classify_row_def timestamp_ms_def int_or_def b
        bump_def predicted_churn_of_def real_or_def Let_def)
qed

text \<open>
  An account that holds two subscriptions whose previous cycle ended in the window is in
  the merged cohort twice: the candidate query returns one row for each subscription.
  Here account 7 holds two 30-day subscriptions that expire 31 days (2678400000 ms) and 32
  days (2764800000 ms) after the start of a 31-day window.
\<close>

theorem merged_candidates_account_twice_counterexample:
  "map cand_tg
     (merged_candidates
        \<lparr>SKIP_FROZEN = False, EXCLUDE_TRIALS = False, PLAN_PROB_OVERRIDES = None,
         RENEWAL_PROBABILITY = None, COMPLETION_MODE = None\<rparr>
        [\<lparr>k_tg_id = 7, k_expiry_time = 2678400000, k_tariff_id = 1, k_is_frozen = Some False\<rparr>,
         \<lparr>k_tg_id = 7, k_expiry_time = 2764800000, k_tariff_id = 1, k_is_frozen = Some False\<rparr>]
        [\<lparr>t_id = 1, t_group_code = None, t_duration_days = Some 30, t_price_rub = Some 100\<rparr>]
        [] 0 (2678400000)) = [7, 7]"
  by (simp add: merged_candidates_def fallback_rows_def last_pays_def q_candidates_def
      prev_expiry_ms_def coalesce_def timestamp_ms_def cand_tg_def)

text \<open>
  Claim C2, amended. The merged candidate cohort is the list of real-subscription
  candidates (one for each qualifying subscription, so an account with several of them
  is there once for each) followed by the fallback candidates. A fallback candidate is
  admitted only for an account with no real-subscription candidate, and no two fallback
  candidates belong to the same account: an account reconstructed through the fallback
  path is in the merged cohort exactly once.
\<close>

theorem fallback_candidates_deduplicated:
  "merged_candidates flags keys plans payments dt_start dt_end =
     q_candidates flags keys plans (timestamp_ms dt_start) (timestamp_ms dt_end)
     @ fallback_rows flags keys plans payments dt_start dt_end
   \<and> distinct (map cand_tg (fallback_rows flags keys plans payments dt_start dt_end))
   \<and> (\<forall>r \<in> set (fallback_rows flags keys plans payments dt_start dt_end).
         cand_tg r \<notin> cand_tg ` set (q_candidates flags keys plans
                                       (timestamp_ms dt_start) (timestamp_ms dt_end))
         \<and> length (filter (\<lambda>c. cand_tg c = cand_tg r)
                     (merged_candidates flags keys plans payments dt_start dt_end)) = 1)"
proof -
  let ?cand = "q_candidates flags keys plans (timestamp_ms dt_start) (timestamp_ms dt_end)"
  let ?fb = "fallback_rows flags keys plans payments dt_start dt_end"
  have m: "merged_candidates flags keys plans payments dt_start dt_end = ?cand @ ?fb"
    by (simp add: merged_candidates_def)
  have d: "distinct (map cand_tg ?fb)"
    unfolding fallback_rows_def Let_def
    by (rule concat_fallback_distinct) (rule last_pays_distinct)
  have n: "cand_tg r \<notin> cand_tg ` set ?cand" if "r \<in> set ?fb" for r
  proof -
    from that obtain lp where
      "r \<in> set (fallback_of (set (map cand_tg ?cand)) (price_to_plan plans) dt_start dt_end lp)"
      by (auto simp: fallback_rows_def Let_def)
    from fallback_of_row [OF this] show ?thesis by simp
  qed
  have one: "length (filter (\<lambda>c. cand_tg c = cand_tg r) (?cand @ ?fb)) = 1" if "r \<in> set ?fb" for r
  proof -
    have "\<forall>c \<in> set ?cand. cand_tg c \<noteq> cand_tg r"
      using n [OF that] by (metis imageI)
    then have "filter (\<lambda>c. cand_tg c = cand_tg r) ?cand = []"
      by (simp add: filter_empty_conv)
    moreover have "length (filter (\<lambda>c. cand_tg c = cand_tg r) ?fb) = 1"
      using d that by (rule distinct_map_filter_one)
    ultimately show ?thesis by simp
  qed
  from m d n one show ?thesis by simp
qed

theorem fallback_candidates_deduplicated_witness:
  "merged_candidates
     \<lparr>SKIP_FROZEN = False, EXCLUDE_TRIALS = False, PLAN_PROB_OVERRIDES = None,
      RENEWAL_PROBABILITY = None, COMPLETION_MODE = None\<rparr>
     [\<lparr>k_tg_id = 7, k_expiry_time = 2678400000, k_tariff_id = 1, k_is_frozen = Some False\<rparr>]
     [\<lparr>t_id = 1, t_group_code = None, t_duration_days = Some 30, t_price_rub = Some 100\<rparr>]
     [\<lparr>p_tg_id = 7, p_amount = Some 100, p_status = ''success'', p_created_at = - 1728000000\<rparr>,
      \<lparr>p_tg_id = 8, p_amount = Some 100, p_status = ''success'', p_created_at = - 1728000000\<rparr>]
     0 (2678400000)
   = [(Some (2678400000), None, Some 30, Some 100, 7), (None, None, Some 30, Some 100, 8)]
   \<and> distinct (map cand_tg (fallback_rows
     \<lparr>SKIP_FROZEN = False, EXCLUDE_TRIALS = False, PLAN_PROB_OVERRIDES = None,
      RENEWAL_PROBABILITY = None, COMPLETION_MODE = None\<rparr>
     [\<lparr>k_tg_id = 7, k_expiry_time = 2678400000, k_tariff_id = 1, k_is_frozen = Some False\<rparr>]
     [\<lparr>t_id = 1, t_group_code = None, t_duration_days = Some 30, t_price_rub = Some 100\<rparr>]
     [\<lparr>p_tg_id = 7, p_amount = Some 100, p_status = ''success'', p_created_at = - 1728000000\<rparr>,
      \<lparr>p_tg_id = 8, p_amount = Some 100, p_status = ''success'', p_created_at = - 1728000000\<rparr>]
     0 (2678400000)))
   \<and> length (filter (\<lambda>c. cand_tg c = 8) (merged_candidates
     \<lparr>SKIP_FROZEN = False, EXCLUDE_TRIALS = False, PLAN_PROB_OVERRIDES = None,
      RENEWAL_PROBABILITY = None, COMPLETION_MODE = None\<rparr>
     [\<lparr>k_tg_id = 7, k_expiry_time = 2678400000, k_tariff_id = 1, k_is_frozen = Some False\<rparr>]
     [\<lparr>t_id = 1, t_group_code = None, t_duration_days = Some 30, t_price_rub = Some 100\<rparr>]
     [\<lparr>p_tg_id = 7, p_amount = Some 100, p_status = ''success'', p_created_at = - 1728000000\<rparr>,
      \<lparr>p_tg_id = 8, p_amount = Some 100, p_status = ''success'', p_created_at = - 1728000000\<rparr>]
     0 (2678400000))) = 1"
  using fallback_candidates_deduplicated
    [of "\<lparr>SKIP_FROZEN = False, EXCLUDE_TRIALS = False, PLAN_PROB_OVERRIDES = None,
      RENEWAL_PROBABILITY = None, COMPLETION_MODE = None\<rparr>"
        "[\<lparr>k_tg_id = 7, k_expiry_time = 2678400000, k_tariff_id = 1, k_is_frozen = Some False\<rparr>]"
        "[\<lparr>t_id = 1, t_group_code = None, t_duration_days = Some 30, t_price_rub = Some 100\<rparr>]"
        "[\<lparr>p_tg_id = 7, p_amount = Some 100, p_status = ''success'', p_created_at = - 1728000000\<rparr>,
      \<lparr>p_tg_id = 8, p_amount = Some 100, p_status = ''success'', p_created_at = - 1728000000\<rparr>]"
        0 "2678400000"]
  unfolding example_q_candidates example_fallback_rows example_merged_candidates
  by (simp add: cand_tg_def)

subsection \<open>The retention report\<close>

lemma classify_row_counts:
  "classify_row end_ms paid row (r, n, bc) = (r', n', bc') \<Longrightarrow> r' + n' = r + n + 1"
  by (cases row) (auto simp: classify_row_def split: option.splits if_splits)

lemma fold_classify_row_counts:
  "fold (classify_row end_ms paid) rows (r, n, bc) = (r', n', bc') \<Longrightarrow>
   r' + n' = r + n + int (length rows)"
proof (induction rows arbitrary: r n bc)
  case Nil
  then show ?case by simp
next
  case (Cons row rows)
  obtain r1 n1 bc1 where s: "classify_row end_ms paid row (r, n, bc) = (r1, n1, bc1)"
    by (cases "classify_row end_ms paid row (r, n, bc)") auto
  from Cons.prems have "fold (classify_row end_ms paid) rows (r1, n1, bc1) = (r', n', bc')"
    by (simp add: s)
  from Cons.IH [OF this] classify_row_counts [OF s] show ?case by simp
qed

lemma report_of_candidates_nonempty:
  assumes "cand_rows \<noteq> []"
  shows "renewed_count (report_of_candidates cand_rows end_ms paid probs g)
         + not_renewed_yet (report_of_candidates cand_rows end_ms paid probs g)
         = int (length cand_rows)"
    and "retention_rate (report_of_candidates cand_rows end_ms paid probs g)
         = Some (real_of_int (renewed_count (report_of_candidates cand_rows end_ms paid probs g))
                 / real_of_int (int (length cand_rows)))"
    and "churn_rate (report_of_candidates cand_rows end_ms paid probs g)
         = Some (real_of_int (not_renewed_yet (report_of_candidates cand_rows end_ms paid probs g))
                 / real_of_int (int (length cand_rows)))"
proof -
  obtain r n bc where f: "fold (classify_row end_ms paid) cand_rows (0, 0, []) = (r, n, bc)"
    by (cases "fold (classify_row end_ms paid) cand_rows (0, 0, [])") auto
  from assms have len: "int (length cand_rows) \<noteq> 0" by simp
  have rep: "report_of_candidates cand_rows end_ms paid probs g =
     \<lparr>retention_rate = Some (real_of_int r / real_of_int (int (length cand_rows))),
      churn_rate = Some (real_of_int n / real_of_int (int (length cand_rows))),
      renewed_count = r, not_renewed_yet = n,
      predicted_churn = predicted_churn_of probs g bc\<rparr>"
    using len by (simp add: report_of_candidates_def Let_def f)
  from fold_classify_row_counts [OF f]
  show "renewed_count (report_of_candidates cand_rows end_ms paid probs g)
         + not_renewed_yet (report_of_candidates cand_rows end_ms paid probs g)
         = int (length cand_rows)"
    by (simp add: rep)
  show "retention_rate (report_of_candidates cand_rows end_ms paid probs g)
         = Some (real_of_int (renewed_count (report_of_candidates cand_rows end_ms paid probs g))
                 / real_of_int (int (length cand_rows)))"
    by (simp add: rep)
  show "churn_rate (report_of_candidates cand_rows end_ms paid probs g)
         = Some (real_of_int (not_renewed_yet (report_of_candidates cand_rows end_ms paid probs g))
                 / real_of_int (int (length cand_rows)))"
    by (simp add: rep)
qed

text \<open>
  Claim C3. For every non-empty current-month candidate cohort, the retention report has
  \<open>renewed_count + not_renewed_yet = total_candidates\<close>,
  \<open>retention_rate = renewed_count / total_candidates\<close>,
  \<open>churn_rate = not_renewed_yet / total_candidates\<close>, and so the two rates add up to 1.
\<close>

theorem retention_conservation:
  assumes "merged_candidates flags keys plans payments dt_start dt_end \<noteq> []"
  shows "renewed_count (calc_retention_churn flags keys plans payments dt_start dt_end probs g)
         + not_renewed_yet (calc_retention_churn flags keys plans payments dt_start dt_end probs g)
         = int (length (merged_candidates flags keys plans payments dt_start dt_end))
       \<and> (\<exists>rr cr.
            retention_rate (calc_retention_churn flags keys plans payments dt_start dt_end probs g)
              = Some rr
          \<and> churn_rate (calc_retention_churn flags keys plans payments dt_start dt_end probs g)
              = Some cr
          \<and> rr = real_of_int (renewed_count
                     (calc_retention_churn flags keys plans payments dt_start dt_end probs g))
                 / real_of_int (int (length (merged_candidates flags keys plans payments dt_start dt_end)))
          \<and> cr = real_of_int (not_renewed_yet
                     (calc_retention_churn flags keys plans payments dt_start dt_end probs g))
                 / real_of_int (int (length (merged_candidates flags keys plans payments dt_start dt_end)))
          \<and> rr + cr = 1)"
proof -
  let ?c = "merged_candidates flags keys plans payments dt_start dt_end"
  let ?rep = "calc_retention_churn flags keys plans payments dt_start dt_end probs g"
  let ?t = "real_of_int (int (length ?c))"
  have rep: "?rep = report_of_candidates ?c (timestamp_ms dt_end)
                      (set (paid_in_month payments dt_start dt_end)) probs g"
    by (simp add: calc_retention_churn_def)
  have sum: "renewed_count ?rep + not_renewed_yet ?rep = int (length ?c)"
    and rr: "retention_rate ?rep = Some (real_of_int (renewed_count ?rep) / ?t)"
    and cr: "churn_rate ?rep = Some (real_of_int (not_renewed_yet ?rep) / ?t)"
    unfolding rep by (rule report_of_candidates_nonempty [OF assms])+
  from assms have t: "?t \<noteq> 0" by simp
  have "real_of_int (renewed_count ?rep) / ?t + real_of_int (not_renewed_yet ?rep) / ?t
        = real_of_int (renewed_count ?rep + not_renewed_yet ?rep) / ?t"
    by (simp add: add_divide_distrib)
  also have "\<dots> = 1"
    using t by (simp only: sum) simp
  finally have one: "real_of_int (renewed_count ?rep) / ?t + real_of_int (not_renewed_yet ?rep) / ?t = 1" .
  from sum rr cr one show ?thesis by blast
qed

theorem retention_conservation_witness:
  "merged_candidates
     \<lparr>SKIP_FROZEN = False, EXCLUDE_TRIALS = False, PLAN_PROB_OVERRIDES = None,
      RENEWAL_PROBABILITY = None, COMPLETION_MODE = None\<rparr>
     [\<lparr>k_tg_id = 7, k_expiry_time = 2678400000, k_tariff_id = 1, k_is_frozen = Some False\<rparr>]
     [\<lparr>t_id = 1, t_group_code = None, t_duration_days = Some 30, t_price_rub = Some 100\<rparr>]
     [\<lparr>p_tg_id = 7, p_amount = Some 100, p_status = ''success'', p_created_at = - 1728000000\<rparr>,
      \<lparr>p_tg_id = 8, p_amount = Some 100, p_status = ''success'', p_created_at = - 1728000000\<rparr>]
     0 (2678400000) \<noteq> []
   \<and> calc_retention_churn
     \<lparr>SKIP_FROZEN = False, EXCLUDE_TRIALS = False, PLAN_PROB_OVERRIDES = None,
      RENEWAL_PROBABILITY = None, COMPLETION_MODE = None\<rparr>
     [\<lparr>k_tg_id = 7, k_expiry_time = 2678400000, k_tariff_id = 1, k_is_frozen = Some False\<rparr>]
     [\<lparr>t_id = 1, t_group_code = None, t_duration_days = Some 30, t_price_rub = Some 100\<rparr>]
     [\<lparr>p_tg_id = 7, p_amount = Some 100, p_status = ''success'', p_created_at = - 1728000000\<rparr>,
      \<lparr>p_tg_id = 8, p_amount = Some 100, p_status = ''success'', p_created_at = - 1728000000\<rparr>]
     0 (2678400000) None None
   = \<lparr>retention_rate = Some (1 / 2), churn_rate = Some (1 / 2), renewed_count = 1,
      not_renewed_yet = 1, predicted_churn = 0\<rparr>"
proof -
  have ne: "merged_candidates
     \<lparr>SKIP_FROZEN = False, EXCLUDE_TRIALS = False, PLAN_PROB_OVERRIDES = None,
      RENEWAL_PROBABILITY = None, COMPLETION_MODE = None\<rparr>
     [\<lparr>k_tg_id = 7, k_expiry_time = 2678400000, k_tariff_id = 1, k_is_frozen = Some False\<rparr>]
     [\<lparr>t_id = 1, t_group_code = None, t_duration_days = Some 30, t_price_rub = Some 100\<rparr>]
     [\<lparr>p_tg_id = 7, p_amount = Some 100, p_status = ''success'', p_created_at = - 1728000000\<rparr>,
      \<lparr>p_tg_id = 8, p_amount = Some 100, p_status = ''success'', p_created_at = - 1728000000\<rparr>]
     0 (2678400000) \<noteq> []"
    by (simp add: example_merged_candidates)
  from retention_conservation [OF ne, of None None] ne show ?thesis
    by (simp add: example_report)
qed

text \<open>
  Claim C4. When the current-month candidate cohort is empty, the retention report has
  no retention rate and no churn rate (the marker \<^verbatim>\<open>None\<close>, not 0), 0 renewed, 0 not
  renewed yet, and the predicted churn 0.
\<close>

theorem retention_empty_cohort:
  assumes "merged_candidates flags keys plans payments dt_start dt_end = []"
  shows "calc_retention_churn flags keys plans payments dt_start dt_end probs g =
           \<lparr>retention_rate = None, churn_rate = None, renewed_count = 0,
            not_renewed_yet = 0, predicted_churn = 0\<rparr>"
  using assms by (simp add: calc_retention_churn_def report_of_candidates_def)

theorem retention_empty_cohort_witness:
  "merged_candidates
     \<lparr>SKIP_FROZEN = False, EXCLUDE_TRIALS = False, PLAN_PROB_OVERRIDES = None,
      RENEWAL_PROBABILITY = None, COMPLETION_MODE = None\<rparr>
     [\<lparr>k_tg_id = 7, k_expiry_time = 8640000000, k_tariff_id = 1, k_is_frozen = Some False\<rparr>]
     [\<lparr>t_id = 1, t_group_code = None, t_duration_days = Some 30, t_price_rub = Some 100\<rparr>]
     [] 0 (2678400000) = []
   \<and> calc_retention_churn
     \<lparr>SKIP_FROZEN = False, EXCLUDE_TRIALS = False, PLAN_PROB_OVERRIDES = None,
      RENEWAL_PROBABILITY = None, COMPLETION_MODE = None\<rparr>
     [\<lparr>k_tg_id = 7, k_expiry_time = 8640000000, k_tariff_id = 1, k_is_frozen = Some False\<rparr>]
     [\<lparr>t_id = 1, t_group_code = None, t_duration_days = Some 30, t_price_rub = Some 100\<rparr>]
     [] 0 (2678400000) None None
   = \<lparr>retention_rate = None, churn_rate = None, renewed_count = 0,
      not_renewed_yet = 0, predicted_churn = 0\<rparr>"
proof -
  have e: "merged_candidates
     \<lparr>SKIP_FROZEN = False, EXCLUDE_TRIALS = False, PLAN_PROB_OVERRIDES = None,
      RENEWAL_PROBABILITY = None, COMPLETION_MODE = None\<rparr>
     [\<lparr>k_tg_id = 7, k_expiry_time = 8640000000, k_tariff_id = 1, k_is_frozen = Some False\<rparr>]
     [\<lparr>t_id = 1, t_group_code = None, t_duration_days = Some 30, t_price_rub = Some 100\<rparr>]
     [] 0 (2678400000) = []"
    by (simp add: merged_candidates_def fallback_rows_def last_pays_def q_candidates_def
        prev_expiry_ms_def coalesce_def timestamp_ms_def)
  from retention_empty_cohort [OF e, of None None] e show ?thesis by simp
qed

end
